theory Spec2Isabelle
  imports Main "HOL-Library.Sublist"
begin

section \<open>Errors and dynamically typed values\<close>

text \<open>
  Go errors are values. The kinds that the code under study tells apart are kept as
  constructors: the two end-of-file sentinels of package \<^verbatim>\<open>io\<close>, a permission error
  of package \<^verbatim>\<open>os\<close>, and every other error with its message. \<^verbatim>\<open>fmt.Errorf("...%w", err)\<close>
  is \<open>ErrWrap\<close>.
\<close>

datatype error =
    EOF
  | ErrUnexpectedEOF
  | ErrPermission string
  | ErrNotFound string
  | ErrOther string
  | ErrWrap string error

text \<open>\<^verbatim>\<open>errors.Is(err, target)\<close> for a sentinel target: follows the chain of wrapped errors.\<close>

fun errors_Is :: "error \<Rightarrow> error \<Rightarrow> bool" where
  "errors_Is (ErrWrap msg e) target = (ErrWrap msg e = target \<or> errors_Is e target)"
| "errors_Is e target = (e = target)"

text \<open>\<^verbatim>\<open>os.IsPermission(err)\<close>: does not look through \<^verbatim>\<open>fmt.Errorf\<close> wrappers.\<close>

fun os_IsPermission :: "error \<Rightarrow> bool" where
  "os_IsPermission (ErrPermission p) = True"
| "os_IsPermission e = False"

text \<open>\<^verbatim>\<open>err.Error()\<close>.\<close>

fun Error_msg :: "error \<Rightarrow> string" where
  "Error_msg EOF = ''EOF''"
| "Error_msg ErrUnexpectedEOF = ''unexpected EOF''"
| "Error_msg (ErrPermission p) = p @ '': permission denied''"
| "Error_msg (ErrNotFound m) = m @ '' not found''"
| "Error_msg (ErrOther m) = m"
| "Error_msg (ErrWrap m e) = m @ Error_msg e"

text \<open>
  A value of type \<^verbatim>\<open>interface{}\<close> as the YAML and JSON decoders produce it: nil, a
  string, a map with string keys, a slice, a boolean or a number.
\<close>

datatype any =
    ANil
  | AStr string
  | AMap "(string \<times> any) list"
  | ASlice "any list"
  | ABool bool
  | ANum int

text \<open>\<^verbatim>\<open>m[key]\<close> on a \<^verbatim>\<open>map[string]interface{}\<close>: a missing key reads as nil.\<close>

definition map_index :: "(string \<times> any) list \<Rightarrow> string \<Rightarrow> any" where
  "map_index m key = (case map_of m key of None \<Rightarrow> ANil | Some v \<Rightarrow> v)"

section \<open>The Manifest resource (api/v1alpha1)\<close>

type_synonym ManifestState = string

definition ManifestStateReady :: ManifestState where "ManifestStateReady = ''Ready''"
definition ManifestStateProcessing :: ManifestState where "ManifestStateProcessing = ''Processing''"
definition ManifestStateError :: ManifestState where "ManifestStateError = ''Error''"
definition ManifestStateDeleting :: ManifestState where "ManifestStateDeleting = ''Deleting''"

definition ManifestKind :: string where "ManifestKind = ''Manifest''"
definition ConditionTypeReady :: string where "ConditionTypeReady = ''Ready''"
definition ConditionStatusTrue :: string where "ConditionStatusTrue = ''True''"
definition ConditionStatusFalse :: string where "ConditionStatusFalse = ''False''"
definition ConditionStatusUnknown :: string where "ConditionStatusUnknown = ''Unknown''"

definition ManifestFinalizer :: string where
  "ManifestFinalizer = ''operator.kyma-project.io/manifest''"

text \<open>Points in time, counted from Go's zero \<^verbatim>\<open>time.Time\<close>.\<close>

type_synonym Time = int

text \<open>\<^verbatim>\<open>(*metav1.Time).IsZero\<close>: a nil pointer and the zero time are both zero.\<close>

definition IsZero :: "Time option \<Rightarrow> bool" where
  "IsZero t = (case t of None \<Rightarrow> True | Some v \<Rightarrow> v = 0)"

record InstallItem =
  item_ChartName :: string
  item_ClientConfig :: string
  item_Overrides :: string

definition empty_InstallItem :: InstallItem where
  "empty_InstallItem = \<lparr>item_ChartName = [], item_ClientConfig = [], item_Overrides = []\<rparr>"

record ManifestCondition =
  cond_Type :: string
  cond_Status :: string
  cond_Message :: string
  cond_Reason :: string
  cond_LastTransitionTime :: "Time option"
  cond_InstallInfo :: InstallItem

text \<open>An entry of \<^verbatim>\<open>spec.installs\<close>: the raw source payload and the install's name.\<close>

record InstallInfo =
  Source_Raw :: string
  Name :: string

text \<open>
  Modelled from the spec: the declaration of \<^verbatim>\<open>types.RefTypeMetadata\<close> and its method
  \<^verbatim>\<open>NotEmpty\<close> lie outside the sources at hand. It is a string type of which the code
  names four values; every other string is \<open>UnknownRefType\<close>. The specification has a
  layer pulled when the type is non-empty, so \<^verbatim>\<open>NotEmpty\<close> tells the nil type from the
  rest.
\<close>

datatype RefTypeMetadata =
    HelmChartType
  | OciRefType
  | KustomizeType
  | NilRefType
  | UnknownRefType string

definition NotEmpty :: "RefTypeMetadata \<Rightarrow> bool" where
  "NotEmpty t = (t \<noteq> NilRefType)"

text \<open>\<^verbatim>\<open>types.ImageSpec\<close>; the optional credential selector is kept as an option.\<close>

record ImageSpec =
  Repo :: string
  img_Name :: string
  Ref :: string
  img_Type :: RefTypeMetadata
  CredSecretSelector :: "string option"

record HelmChartSpec =
  helm_URL :: string
  helm_ChartName :: string
  helm_Type :: RefTypeMetadata

record KustomizeSpec =
  kust_Path :: string
  kust_URL :: string
  kust_Type :: RefTypeMetadata

record ManifestSpec =
  Remote :: bool
  Config :: ImageSpec
  Installs :: "InstallInfo list"
  CRDs :: ImageSpec

record ManifestStatus =
  State :: ManifestState
  Conditions :: "ManifestCondition list"
  ObservedGeneration :: int

record Manifest =
  meta_Name :: string
  meta_Namespace :: string
  Generation :: int
  DeletionTimestamp :: "Time option"
  Finalizers :: "string list"
  Labels :: "(string \<times> string) list option"
  Spec :: ManifestSpec
  Status :: ManifestStatus

definition SetObservedGeneration :: "Manifest \<Rightarrow> Manifest" where
  "SetObservedGeneration m = m\<lparr>Status := (Status m)\<lparr>ObservedGeneration := Generation m\<rparr>\<rparr>"

text \<open>The finalizer helpers of \<^verbatim>\<open>controllerutil\<close>.\<close>

definition ContainsFinalizer :: "Manifest \<Rightarrow> string \<Rightarrow> bool" where
  "ContainsFinalizer m finalizer = (finalizer \<in> set (Finalizers m))"

definition AddFinalizer :: "Manifest \<Rightarrow> string \<Rightarrow> Manifest" where
  "AddFinalizer m finalizer =
     (if finalizer \<in> set (Finalizers m) then m
      else m\<lparr>Finalizers := Finalizers m @ [finalizer]\<rparr>)"

definition RemoveFinalizer :: "Manifest \<Rightarrow> string \<Rightarrow> Manifest" where
  "RemoveFinalizer m finalizer = m\<lparr>Finalizers := filter (\<lambda>f. f \<noteq> finalizer) (Finalizers m)\<rparr>"

section \<open>Status conditions (internal/pkg/util/manifest.go)\<close>

text \<open>
  An install response as the worker returns it. The flag maps are
  \<^verbatim>\<open>map[string]interface{}\<close> values.
\<close>

record InstallResponse =
  resp_Ready :: bool
  resp_ChartName :: string
  resp_Err :: "error option"
  resp_ClientConfig :: "(string \<times> any) list"
  resp_Overrides :: "(string \<times> any) list"

definition is_ready_condition_for :: "string \<Rightarrow> ManifestCondition \<Rightarrow> bool" where
  "is_ready_condition_for installName c =
     (cond_Type c = ConditionTypeReady \<and> cond_Reason c = installName)"

text \<open>
  \<^verbatim>\<open>getReadyConditionForComponent\<close> returns a pointer to a copy of the first matching
  condition (the range variable), or a fresh empty condition and false.
\<close>

definition getReadyConditionForComponent :: "Manifest \<Rightarrow> string \<Rightarrow> ManifestCondition option" where
  "getReadyConditionForComponent m installName =
     find (is_ready_condition_for installName) (Conditions (Status m))"

text \<open>The second loop of \<^verbatim>\<open>AddReadyConditionForObjects\<close>: overwrite the first match, then break.\<close>

fun store_condition :: "string \<Rightarrow> ManifestCondition \<Rightarrow> ManifestCondition list \<Rightarrow> ManifestCondition list" where
  "store_condition chartName c [] = []"
| "store_condition chartName c (x # xs) =
     (if is_ready_condition_for chartName x then c # xs
      else x # store_condition chartName c xs)"

definition add_ready_condition ::
  "Time \<Rightarrow> string \<Rightarrow> string \<Rightarrow> Manifest \<Rightarrow> InstallItem \<Rightarrow> Manifest" where
  "add_ready_condition now conditionStatus message m installItem =
     (let found = getReadyConditionForComponent m (item_ChartName installItem);
          condition0 = (case found of
             Some c \<Rightarrow> c
           | None \<Rightarrow> \<lparr>cond_Type = ConditionTypeReady, cond_Status = [], cond_Message = [],
                       cond_Reason = item_ChartName installItem,
                       cond_LastTransitionTime = None, cond_InstallInfo = empty_InstallItem\<rparr>);
          conds0 = (case found of
             Some c \<Rightarrow> Conditions (Status m)
           | None \<Rightarrow> Conditions (Status m) @ [condition0]);
          condition1 = condition0\<lparr>cond_LastTransitionTime := Some now,
                                   cond_Message := message, cond_Status := conditionStatus\<rparr>;
          condition2 = (if item_ClientConfig installItem \<noteq> [] \<or> item_Overrides installItem \<noteq> []
                        then condition1\<lparr>cond_InstallInfo := installItem\<rparr> else condition1)
      in m\<lparr>Status := (Status m)\<lparr>Conditions :=
             store_condition (item_ChartName installItem) condition2 conds0\<rparr>\<rparr>)"

definition AddReadyConditionForObjects ::
  "Time \<Rightarrow> Manifest \<Rightarrow> InstallItem list \<Rightarrow> string \<Rightarrow> string \<Rightarrow> Manifest" where
  "AddReadyConditionForObjects now m installItems conditionStatus message =
     foldl (add_ready_condition now conditionStatus message) m installItems"

text \<open>
  \<^verbatim>\<open>json.Marshal\<close> is the library's; a failure is logged and leaves the bytes empty.
\<close>

definition marshalled :: "((string \<times> any) list \<Rightarrow> error + string) \<Rightarrow> (string \<times> any) list \<Rightarrow> string" where
  "marshalled marshal v = (case marshal v of Inl e \<Rightarrow> [] | Inr bytes \<Rightarrow> bytes)"

definition response_condition :: "InstallResponse \<Rightarrow> string \<times> string" where
  "response_condition response =
     (if resp_Err response \<noteq> None then (ConditionStatusFalse, ''installation error'')
      else if \<not> resp_Ready response then (ConditionStatusUnknown, ''installation processing'')
      else (ConditionStatusTrue, ''installation successful''))"

definition add_response_condition ::
  "((string \<times> any) list \<Rightarrow> error + string) \<Rightarrow> Time \<Rightarrow> Manifest \<Rightarrow> InstallResponse \<Rightarrow> Manifest" where
  "add_response_condition marshal now m response =
     (let (status, message) = response_condition response
      in AddReadyConditionForObjects now m
           [\<lparr>item_ChartName = resp_ChartName response,
             item_ClientConfig = marshalled marshal (resp_ClientConfig response),
             item_Overrides = marshalled marshal (resp_Overrides response)\<rparr>]
           status message)"

definition AddReadyConditionForResponses ::
  "((string \<times> any) list \<Rightarrow> error + string) \<Rightarrow> Time \<Rightarrow> InstallResponse list \<Rightarrow> Manifest \<Rightarrow> Manifest" where
  "AddReadyConditionForResponses marshal now responses m =
     foldl (add_response_condition marshal now) m responses"

section \<open>Install jobs (pkg/types)\<close>

text \<open>
  Modelled from the spec: the struct declarations of package \<^verbatim>\<open>types\<close> lie outside the
  sources at hand. The fields below are those the code at hand reads and writes; they are
  the ones the specification lists for its ClusterInfo and InstallJob. \<^verbatim>\<open>ClusterInfo\<close>
  holds a REST config and a client, either of which may be nil; the values behind them are
  opaque here and stand for themselves.
\<close>

record ClusterInfo =
  ci_Config :: "string option"
  ci_Client :: "string option"

record ChartFlags =
  ConfigFlags :: "(string \<times> any) list"
  SetFlags :: "(string \<times> any) list"

record ChartInfo =
  ChartPath :: string
  RepoName :: string
  URL :: string
  ChartName :: string
  ReleaseName :: string
  Flags :: ChartFlags

text \<open>
  \<^verbatim>\<open>types.InstallInfo\<close> embeds a \<^verbatim>\<open>*ChartInfo\<close> and a \<^verbatim>\<open>*ClusterInfo\<close>; a nil pointer is
  \<open>None\<close>. A \<^verbatim>\<open>ChartInfo\<close> is allocated afresh for every install and owned by one job
  only, so it is kept by value behind the option.
\<close>

record types_InstallInfo =
  job_ChartInfo :: "ChartInfo option"
  job_ClusterInfo :: "ClusterInfo option"
  job_CheckReadyStates :: bool

section \<open>The reconciler (controllers/manifest_controller.go)\<close>

datatype Mode = CreateMode | DeletionMode

text \<open>
  The collaborators of the reconciler, as the values they return: the API server's
  answers to Get, Update and Status().Update, the clock, the JSON encoder, the prepare
  phase and the manifest operations. Every reading of the clock within one pass gives
  \<open>time_Now\<close>.
\<close>

record env =
  api_Get :: "error + Manifest"
  api_Update :: "Manifest \<Rightarrow> error option"
  api_StatusUpdate :: "Manifest \<Rightarrow> error option"
  time_Now :: Time
  json_Marshal :: "(string \<times> any) list \<Rightarrow> error + string"
  GetInstallInfos :: "Manifest \<Rightarrow> error + types_InstallInfo list"
  NewOperations :: "types_InstallInfo \<Rightarrow> error option"
  ops_Install :: "types_InstallInfo \<Rightarrow> bool \<times> error option"
  ops_Uninstall :: "types_InstallInfo \<Rightarrow> bool \<times> error option"
  ops_VerifyResources :: "types_InstallInfo \<Rightarrow> bool \<times> error option"

text \<open>A write the reconciler sends to the API server, with the object it sends.\<close>

datatype api_call = Update Manifest | StatusUpdate Manifest

fun is_StatusUpdate :: "api_call \<Rightarrow> bool" where
  "is_StatusUpdate (StatusUpdate obj) = True"
| "is_StatusUpdate (Update obj) = False"

fun sent_object :: "api_call \<Rightarrow> Manifest" where
  "sent_object (StatusUpdate obj) = obj"
| "sent_object (Update obj) = obj"

text \<open>
  \<^verbatim>\<open>updateManifestStatus\<close> sets the state, records the Manifest's own Ready condition and
  sends the object with its observed generation set. \<open>status_object\<close> is the object sent.
\<close>

definition kind_item :: InstallItem where
  "kind_item = \<lparr>item_ChartName = ManifestKind, item_ClientConfig = [], item_Overrides = []\<rparr>"

definition status_object :: "Time \<Rightarrow> Manifest \<Rightarrow> ManifestState \<Rightarrow> string \<Rightarrow> Manifest" where
  "status_object now manifestObj state message =
     (let m = manifestObj\<lparr>Status := (Status manifestObj)\<lparr>State := state\<rparr>\<rparr>;
          m' = (if state = ManifestStateReady
                  then AddReadyConditionForObjects now m [kind_item] ConditionStatusTrue message
                else if state = []
                  then AddReadyConditionForObjects now m [kind_item] ConditionStatusUnknown message
                else if state = ManifestStateError \<or> state = ManifestStateDeleting
                        \<or> state = ManifestStateProcessing
                  then AddReadyConditionForObjects now m [kind_item] ConditionStatusFalse message
                else m)
      in SetObservedGeneration m')"

definition updateManifestStatus ::
  "env \<Rightarrow> Manifest \<Rightarrow> ManifestState \<Rightarrow> string \<Rightarrow> api_call \<times> error option" where
  "updateManifestStatus r manifestObj state message =
     (let obj = status_object (time_Now r) manifestObj state message
      in (StatusUpdate obj, api_StatusUpdate r obj))"

definition updateManifest :: "env \<Rightarrow> Manifest \<Rightarrow> api_call \<times> error option" where
  "updateManifest r manifestObj = (Update manifestObj, api_Update r manifestObj)"


text \<open>
  What the collector's \<^verbatim>\<open>select\<close> sees in one iteration: the context is done, or a
  response arrives. The list is the order in which the goroutine observes them; when it
  is used up, neither ever happens and the goroutine stays blocked.
\<close>

datatype chan_event = CtxDone | Recv InstallResponse

datatype collected =
    ContextClosed
  | Blocked
  | Collected bool bool "InstallResponse list"

function collect ::
  "int \<Rightarrow> int \<Rightarrow> chan_event list \<Rightarrow> bool \<Rightarrow> bool \<Rightarrow> InstallResponse list \<Rightarrow> collected" where
  "collect a chartCount events errorState processing responses =
     (if a \<le> chartCount then
        (case events of
           [] \<Rightarrow> Blocked
         | CtxDone # rest \<Rightarrow> ContextClosed
         | Recv response # rest \<Rightarrow>
             if resp_Err response \<noteq> None
               then collect (a + 1) chartCount rest True processing (responses @ [response])
             else if \<not> resp_Ready response
               then collect (a + 1) chartCount rest errorState True (responses @ [response])
             else collect (a + 1) chartCount rest errorState processing (responses @ [response]))
      else Collected errorState processing responses)"
  by pat_completeness auto
termination
  by (relation "measure (\<lambda>(a, chartCount, events, e, p, rs). nat (chartCount + 1 - a))") auto

text \<open>How the collector goroutine ends, with the API writes it made, in order.\<close>

datatype handler_exit =
    ExitContextClosed
  | ExitBlocked
  | ExitLocateFailed
  | ExitFinalizerRemoved
  | ExitStateSet

definition end_state :: "bool \<Rightarrow> bool \<Rightarrow> Manifest \<Rightarrow> ManifestState" where
  "end_state errorState processing manifestObj =
     (if errorState then ManifestStateError
      else if IsZero (DeletionTimestamp manifestObj) then
        (if processing then ManifestStateProcessing else ManifestStateReady)
      else ManifestStateDeleting)"

definition setProcessedState :: "env \<Rightarrow> bool \<Rightarrow> bool \<Rightarrow> Manifest \<Rightarrow> api_call" where
  "setProcessedState r errorState processing manifestObj =
     (let endState = end_state errorState processing manifestObj
      in fst (updateManifestStatus r manifestObj endState
                (ManifestKind @ '' in '' @ endState @ '' state'')))"

definition ResponseHandlerFunc ::
  "env \<Rightarrow> int \<Rightarrow> chan_event list \<Rightarrow> handler_exit \<times> api_call list" where
  "ResponseHandlerFunc r chartCount events =
     (case collect 1 chartCount events False False [] of
        ContextClosed \<Rightarrow> (ExitContextClosed, [])
      | Blocked \<Rightarrow> (ExitBlocked, [])
      | Collected errorState processing responses \<Rightarrow>
          (case api_Get r of
             Inl err \<Rightarrow> (ExitLocateFailed, [])
           | Inr latest \<Rightarrow>
               let latestManifestObj =
                     AddReadyConditionForResponses (json_Marshal r) (time_Now r) responses latest
               in if \<not> errorState \<and> \<not> IsZero (DeletionTimestamp latestManifestObj) \<and> \<not> processing
                  then
                    (let unfinalized = RemoveFinalizer latestManifestObj ManifestFinalizer
                     in case api_Update r unfinalized of
                          None \<Rightarrow> (ExitFinalizerRemoved, [Update unfinalized])
                        | Some err \<Rightarrow>
                            (ExitStateSet,
                             [Update unfinalized, setProcessedState r True processing unfinalized]))
                  else (ExitStateSet, [setProcessedState r errorState processing latestManifestObj])))"

text \<open>
  One pass of \<^verbatim>\<open>Reconcile\<close>: the API writes it makes, the collector it starts (with the
  mode and the number of responses the collector will wait for), whether it panics, and
  the error it returns. The requeue delay is random and left out.
\<close>

record ReconcileResult =
  writes :: "api_call list"
  launched :: "(Mode \<times> int) option"
  sent :: "types_InstallInfo list"
  panicked :: bool
  returned :: "error option"

definition no_result :: ReconcileResult where
  "no_result = \<lparr>writes = [], launched = None, sent = [], panicked = False, returned = None\<rparr>"

definition wrote :: "api_call \<times> error option \<Rightarrow> ReconcileResult" where
  "wrote w = no_result\<lparr>writes := [fst w], returned := snd w\<rparr>"

text \<open>\<^verbatim>\<open>client.IgnoreNotFound\<close>.\<close>

fun IgnoreNotFound :: "error \<Rightarrow> error option" where
  "IgnoreNotFound (ErrNotFound n) = None"
| "IgnoreNotFound e = Some e"

definition HandleInitialState :: "env \<Rightarrow> Manifest \<Rightarrow> ReconcileResult" where
  "HandleInitialState r manifestObj =
     wrote (updateManifestStatus r manifestObj ManifestStateProcessing ''initial state'')"

definition sendJobToInstallChannel :: "env \<Rightarrow> Manifest \<Rightarrow> Mode \<Rightarrow> ReconcileResult" where
  "sendJobToInstallChannel r manifestObj mode =
     (let chartCount = int (length (Installs (Spec manifestObj)));
          started = no_result\<lparr>launched := Some (mode, chartCount)\<rparr>
      in case GetInstallInfos r manifestObj of
           Inl err \<Rightarrow> started\<lparr>returned := Some err\<rparr>
         | Inr deployInfos \<Rightarrow> started\<lparr>sent := deployInfos\<rparr>)"

definition HandleProcessingState :: "env \<Rightarrow> Manifest \<Rightarrow> ReconcileResult" where
  "HandleProcessingState r manifestObj = sendJobToInstallChannel r manifestObj CreateMode"

definition HandleDeletingState :: "env \<Rightarrow> Manifest \<Rightarrow> ReconcileResult" where
  "HandleDeletingState r manifestObj = sendJobToInstallChannel r manifestObj DeletionMode"

definition HandleErrorState :: "env \<Rightarrow> Manifest \<Rightarrow> ReconcileResult" where
  "HandleErrorState r manifestObj =
     wrote (updateManifestStatus r manifestObj ManifestStateProcessing
              ''observed generation change'')"

text \<open>The consistency loop of \<^verbatim>\<open>HandleReadyState\<close> over the prepared jobs.\<close>

fun verify_installs :: "env \<Rightarrow> Manifest \<Rightarrow> types_InstallInfo list \<Rightarrow> ReconcileResult" where
  "verify_installs r manifestObj [] = no_result"
| "verify_installs r manifestObj (deployInfo # deployInfos) =
     (case job_ChartInfo deployInfo of
        None \<Rightarrow> no_result\<lparr>panicked := True\<rparr>
      | Some chart \<Rightarrow>
          (case NewOperations r deployInfo of
             Some err \<Rightarrow>
               wrote (updateManifestStatus r manifestObj ManifestStateError (Error_msg err))
           | None \<Rightarrow>
               (let (ready, err) = ops_VerifyResources r deployInfo;
                    chartResponse = \<lparr>resp_Ready = ready, resp_ChartName = ChartName chart,
                                     resp_Err = err,
                                     resp_ClientConfig = ConfigFlags (Flags chart),
                                     resp_Overrides = SetFlags (Flags chart)\<rparr>;
                    noted = AddReadyConditionForResponses (json_Marshal r) (time_Now r)
                              [chartResponse] manifestObj
                in if \<not> ready
                     then wrote (updateManifestStatus r noted ManifestStateProcessing
                                   ''resources not ready'')
                   else (case err of
                           Some e \<Rightarrow>
                             wrote (updateManifestStatus r noted ManifestStateError (Error_msg e))
                         | None \<Rightarrow> verify_installs r manifestObj deployInfos))))"

definition HandleReadyState :: "env \<Rightarrow> Manifest \<Rightarrow> ReconcileResult" where
  "HandleReadyState r manifestObj =
     (if Generation manifestObj \<noteq> ObservedGeneration (Status manifestObj)
        then wrote (updateManifestStatus r manifestObj ManifestStateProcessing
                      ''observed generation change'')
      else (case GetInstallInfos r manifestObj of
              Inl err \<Rightarrow> no_result\<lparr>returned := Some err\<rparr>
            | Inr deployInfos \<Rightarrow> verify_installs r manifestObj deployInfos))"

definition Reconcile :: "env \<Rightarrow> ReconcileResult" where
  "Reconcile r =
     (case api_Get r of
        Inl err \<Rightarrow> no_result\<lparr>returned := IgnoreNotFound err\<rparr>
      | Inr manifestObj \<Rightarrow>
          if \<not> IsZero (DeletionTimestamp manifestObj)
             \<and> State (Status manifestObj) \<noteq> ManifestStateDeleting
            then wrote (updateManifestStatus r manifestObj ManifestStateDeleting
                          ''deletion timestamp set'')
          else if \<not> ContainsFinalizer manifestObj ManifestFinalizer
            then wrote (updateManifest r (AddFinalizer manifestObj ManifestFinalizer))
          else if State (Status manifestObj) = [] then HandleInitialState r manifestObj
          else if State (Status manifestObj) = ManifestStateProcessing
            then HandleProcessingState r manifestObj
          else if State (Status manifestObj) = ManifestStateDeleting
            then HandleDeletingState r manifestObj
          else if State (Status manifestObj) = ManifestStateError
            then HandleErrorState r manifestObj
          else if State (Status manifestObj) = ManifestStateReady
            then HandleReadyState r manifestObj
          else no_result)"



section \<open>The prepare phase (internal/pkg/prepare/deploy.go)\<close>

datatype Keychain = DefaultKeychain | PullSecretKeychain "string list"

text \<open>
  The collaborators of the prepare phase, as functions of their arguments: the label
  selector conversion, the secret listing of the cluster client, the keychain
  constructor, the two layer readers of package \<^verbatim>\<open>descriptor\<close>, the codec, the spec
  type probe, Helm's \<^verbatim>\<open>strvals.ParseInto\<close> on an empty map, and the secret based REST
  config reader.
\<close>

record prepare_env =
  LabelSelectorAsSelector :: "string \<Rightarrow> error + string"
  client_List :: "string \<Rightarrow> string \<Rightarrow> error + string list"
  NewFromPullSecrets :: "string list \<Rightarrow> error + Keychain"
  GetConfigFilePath :: "ImageSpec \<Rightarrow> string"
  DecodeUncompressedLayer :: "ImageSpec \<Rightarrow> bool \<Rightarrow> Keychain \<Rightarrow> string \<Rightarrow> error + any"
  GetPathFromExtractedTarGz :: "ImageSpec \<Rightarrow> bool \<Rightarrow> Keychain \<Rightarrow> error + string"
  GetSpecType :: "string \<Rightarrow> error + RefTypeMetadata"
  Decode_HelmChartSpec :: "string \<Rightarrow> error + HelmChartSpec"
  Decode_ImageSpec :: "string \<Rightarrow> error + ImageSpec"
  Decode_KustomizeSpec :: "string \<Rightarrow> error + KustomizeSpec"
  strvals_ParseInto :: "string \<Rightarrow> error + (string \<times> any) list"
  GetRESTConfig :: "string \<Rightarrow> string \<Rightarrow> string option \<times> error option"
  GetCRDsFromPath :: "string \<Rightarrow> error + string list"
  ToUnstructured :: "Manifest \<Rightarrow> error option"

definition ErrNoAuthSecretFound :: error where
  "ErrNoAuthSecretFound = ErrOther ''no auth secret found''"

definition getCredSecrets :: "prepare_env \<Rightarrow> string \<Rightarrow> string \<Rightarrow> error + string list" where
  "getCredSecrets env credSecretSelector namespace =
     (case LabelSelectorAsSelector env credSecretSelector of
        Inl err \<Rightarrow> Inl (ErrWrap ''error converting labelSelector: '' err)
      | Inr selector \<Rightarrow>
          (case client_List env selector namespace of
             Inl err \<Rightarrow> Inl err
           | Inr items \<Rightarrow> if length items = 0 then Inl ErrNoAuthSecretFound else Inr items))"

definition GetAuthnKeychain :: "prepare_env \<Rightarrow> string \<Rightarrow> string \<Rightarrow> error + Keychain" where
  "GetAuthnKeychain env credSecretSelector namespace =
     (case getCredSecrets env credSecretSelector namespace of
        Inl err \<Rightarrow> Inl err
      | Inr items \<Rightarrow> NewFromPullSecrets env items)"

definition configKeyChain :: "prepare_env \<Rightarrow> string \<Rightarrow> ImageSpec \<Rightarrow> error + Keychain" where
  "configKeyChain env namespace imageSpec =
     (case CredSecretSelector imageSpec of
        Some selector \<Rightarrow> GetAuthnKeychain env selector namespace
      | None \<Rightarrow> Inr DefaultKeychain)"

definition getDecodedConfig ::
  "prepare_env \<Rightarrow> string \<Rightarrow> bool \<Rightarrow> ImageSpec \<Rightarrow> string \<Rightarrow> error + any" where
  "getDecodedConfig env namespace insecureRegistry config filePath =
     (case configKeyChain env namespace config of
        Inl err \<Rightarrow> Inl err
      | Inr keyChain \<Rightarrow> DecodeUncompressedLayer env config insecureRegistry keyChain filePath)"

definition configReadError :: "string \<Rightarrow> error" where
  "configReadError what =
     ErrOther (''reading install '' @ what @ '' resulted in an error for '' @ ManifestKind)"

text \<open>
  \<^verbatim>\<open>parseConfigs\<close> returns the \<^verbatim>\<open>configs\<close> slice or an error; the nil slice it starts
  from is the empty list.
\<close>

definition parseConfigs ::
  "prepare_env \<Rightarrow> ImageSpec \<Rightarrow> string \<Rightarrow> bool \<Rightarrow> error + any list" where
  "parseConfigs env config namespace insecureRegistry =
     (if NotEmpty (img_Type config) then
        (case getDecodedConfig env namespace insecureRegistry config (GetConfigFilePath env config) of
           Inl err \<Rightarrow>
             if \<not> errors_Is err EOF \<and> \<not> errors_Is err ErrUnexpectedEOF then Inl err
             else Inr []
         | Inr decodedConfig \<Rightarrow>
             (case decodedConfig of
                AMap installConfigObj \<Rightarrow>
                  (if map_index installConfigObj ''configs'' \<noteq> ANil then
                     (case map_index installConfigObj ''configs'' of
                        ASlice configs \<Rightarrow> Inr configs
                      | _ \<Rightarrow> Inl (configReadError ''chart config object of .spec.config''))
                   else Inr [])
              | _ \<Rightarrow> Inl (configReadError ''.spec.config'')))
      else Inr [])"

text \<open>
  Modelled from the spec: \<^verbatim>\<open>util.GetResourceLabel\<close> is declared outside the sources at
  hand. The specification has the owner looked up through the label and the lookup fail
  when the label is absent.
\<close>

definition GetResourceLabel :: "Manifest \<Rightarrow> string \<Rightarrow> error + string" where
  "GetResourceLabel resource labelName =
     (case Labels resource of
        None \<Rightarrow> Inl (ErrOther (''label '' @ labelName @ '' not found''))
      | Some ls \<Rightarrow>
          (case map_of ls labelName of
             None \<Rightarrow> Inl (ErrOther (''label '' @ labelName @ '' not found''))
           | Some v \<Rightarrow> Inr v))"

text \<open>
  Modelled from the spec: the constant \<^verbatim>\<open>labels.CacheKey\<close> is declared outside the sources
  at hand; the specification calls the label \<^verbatim>\<open>cache-key\<close>.
\<close>

definition CacheKey :: string where
  "CacheKey = ''operator.kyma-project.io/cache-key''"

definition empty_ClusterInfo :: ClusterInfo where
  "empty_ClusterInfo = \<lparr>ci_Config = None, ci_Client = None\<rparr>"

text \<open>
  The renderer cache maps an object key (name, namespace) to a processor or nil; a
  processor is known here by what its \<^verbatim>\<open>GetClusterInfo\<close> returns. The custom config
  getter is nil or a function, known by what calling it returns. The function returns the
  pair (cluster info, error) as the Go function does.
\<close>

definition getDestinationConfigAndClient ::
  "prepare_env \<Rightarrow> ClusterInfo \<Rightarrow> Manifest
     \<Rightarrow> (string \<times> string \<Rightarrow> (ClusterInfo \<times> error option) option)
     \<Rightarrow> (string option \<times> error option) option \<Rightarrow> ClusterInfo \<times> error option" where
  "getDestinationConfigAndClient env defaultClusterInfo manifestObj GetProcessor customCfgGetter =
     (if \<not> Remote (Spec manifestObj) then (defaultClusterInfo, None)
      else
        (case GetResourceLabel manifestObj CacheKey of
           Inl err \<Rightarrow> (empty_ClusterInfo, Some err)
         | Inr kymaOwnerLabel \<Rightarrow>
             (case GetProcessor (kymaOwnerLabel, meta_Namespace manifestObj) of
                Some processor_GetClusterInfo \<Rightarrow> processor_GetClusterInfo
              | None \<Rightarrow>
                  (let (restConfig, err) =
                         (case customCfgGetter of
                            Some called \<Rightarrow> called
                          | None \<Rightarrow> GetRESTConfig env kymaOwnerLabel (meta_Namespace manifestObj))
                   in case err of
                        Some e \<Rightarrow> (empty_ClusterInfo, Some e)
                      | None \<Rightarrow> (\<lparr>ci_Config = restConfig, ci_Client = None\<rparr>, None)))))"

definition getChartPath :: "prepare_env \<Rightarrow> ImageSpec \<Rightarrow> string \<Rightarrow> bool \<Rightarrow> error + string" where
  "getChartPath env imageSpec namespace insecureRegistry =
     (case configKeyChain env namespace imageSpec of
        Inl err \<Rightarrow> Inl err
      | Inr keyChain \<Rightarrow> GetPathFromExtractedTarGz env imageSpec insecureRegistry keyChain)"

definition empty_ChartInfo :: ChartInfo where
  "empty_ChartInfo =
     \<lparr>ChartPath = [], RepoName = [], URL = [], ChartName = [], ReleaseName = [],
      Flags = \<lparr>ConfigFlags = [], SetFlags = []\<rparr>\<rparr>"

definition createKustomizeChartInfo :: "prepare_env \<Rightarrow> InstallInfo \<Rightarrow> error + ChartInfo" where
  "createKustomizeChartInfo env install =
     (case Decode_KustomizeSpec env (Source_Raw install) of
        Inl err \<Rightarrow> Inl err
      | Inr kustomizeSpec \<Rightarrow>
          Inr (empty_ChartInfo\<lparr>ChartName := Name install, ChartPath := kust_Path kustomizeSpec,
                               URL := kust_URL kustomizeSpec\<rparr>))"

definition createOciChartInfo ::
  "prepare_env \<Rightarrow> InstallInfo \<Rightarrow> Manifest \<Rightarrow> bool \<Rightarrow> error + ChartInfo" where
  "createOciChartInfo env install manifestObj insecureRegistry =
     (case Decode_ImageSpec env (Source_Raw install) of
        Inl err \<Rightarrow> Inl err
      | Inr imageSpec \<Rightarrow>
          (case getChartPath env imageSpec (meta_Namespace manifestObj) insecureRegistry of
             Inl err \<Rightarrow> Inl err
           | Inr chartPath \<Rightarrow>
               Inr (empty_ChartInfo\<lparr>ChartName := Name install, ChartPath := chartPath\<rparr>)))"

definition createHelmChartInfo :: "prepare_env \<Rightarrow> InstallInfo \<Rightarrow> error + ChartInfo" where
  "createHelmChartInfo env install =
     (case Decode_HelmChartSpec env (Source_Raw install) of
        Inl err \<Rightarrow> Inl err
      | Inr helmChartSpec \<Rightarrow>
          Inr (empty_ChartInfo\<lparr>ChartName := Name install @ ''/'' @ helm_ChartName helmChartSpec,
                               RepoName := Name install, URL := helm_URL helmChartSpec\<rparr>))"

definition namespacedName :: "Manifest \<Rightarrow> string" where
  "namespacedName manifestObj = meta_Namespace manifestObj @ ''/'' @ meta_Name manifestObj"

definition getChartInfoForInstall ::
  "prepare_env \<Rightarrow> InstallInfo \<Rightarrow> Manifest \<Rightarrow> bool \<Rightarrow> error + ChartInfo" where
  "getChartInfoForInstall env install manifestObj insecureRegistry =
     (case GetSpecType env (Source_Raw install) of
        Inl err \<Rightarrow> Inl err
      | Inr specType \<Rightarrow>
          (case specType of
             HelmChartType \<Rightarrow> createHelmChartInfo env install
           | OciRefType \<Rightarrow> createOciChartInfo env install manifestObj insecureRegistry
           | KustomizeType \<Rightarrow> createKustomizeChartInfo env install
           | NilRefType \<Rightarrow>
               Inl (ErrOther (''empty image type for '' @ namespacedName manifestObj
                              @ '' resource chart installation''))
           | UnknownRefType t \<Rightarrow>
               Inl (ErrOther (''unsupported type '' @ t @ '' of install for Manifest ''
                              @ namespacedName manifestObj))))"

text \<open>
  \<^verbatim>\<open>getConfigAndValuesForInstall\<close>: the first config whose \<^verbatim>\<open>name\<close> is the install's name
  decides; a config that is not a map is an error when the loop reaches it.
\<close>

fun getConfigAndValuesForInstall :: "string \<Rightarrow> any list \<Rightarrow> error + (string \<times> string)" where
  "getConfigAndValuesForInstall installName [] = Inr ([], [])"
| "getConfigAndValuesForInstall installName (AMap mappedConfig # configs) =
     (if map_index mappedConfig ''name'' = AStr installName then
        (case map_index mappedConfig ''overrides'' of
           AStr defaultOverrides \<Rightarrow>
             (case map_index mappedConfig ''clientConfig'' of
                AStr clientConfig \<Rightarrow> Inr (clientConfig, defaultOverrides)
              | _ \<Rightarrow> Inl (configReadError ''chart config''))
         | _ \<Rightarrow> Inl (configReadError ''config object overrides''))
      else getConfigAndValuesForInstall installName configs)"
| "getConfigAndValuesForInstall installName (config # configs) =
     Inl (configReadError ''config object'')"

definition parseChartConfigAndValues ::
  "prepare_env \<Rightarrow> InstallInfo \<Rightarrow> any list \<Rightarrow> string
     \<Rightarrow> error + ((string \<times> any) list \<times> (string \<times> any) list)" where
  "parseChartConfigAndValues env install configs nsName =
     (case getConfigAndValuesForInstall (Name install) configs of
        Inl err \<Rightarrow>
          Inl (ErrWrap (''manifest '' @ nsName
                        @ '' encountered an error while parsing chart config: '') err)
      | Inr (configString, valuesString) \<Rightarrow>
          (case strvals_ParseInto env configString of
             Inl err \<Rightarrow> Inl err
           | Inr config \<Rightarrow>
               (case strvals_ParseInto env valuesString of
                  Inl err \<Rightarrow> Inl err
                | Inr values \<Rightarrow> Inr (config, values))))"

text \<open>
  \<^verbatim>\<open>parseInstallations\<close> receives \<^verbatim>\<open>baseDeployInfo\<close> as a pointer and returns a slice of
  pointers. The store maps an address to the \<^verbatim>\<open>types.InstallInfo\<close> it holds.
  \<^verbatim>\<open>deployInfo := baseDeployInfo\<close> copies the pointer, so the assignment to
  \<^verbatim>\<open>deployInfo.ChartInfo\<close> writes into the object at that address. The loop returns the
  slice (or the error) and the store as it leaves it.
\<close>

type_synonym store = "nat \<Rightarrow> types_InstallInfo"

fun installations_loop ::
  "prepare_env \<Rightarrow> Manifest \<Rightarrow> any list \<Rightarrow> nat \<Rightarrow> bool \<Rightarrow> InstallInfo list \<Rightarrow> nat list \<Rightarrow> store
     \<Rightarrow> (error + nat list) \<times> store" where
  "installations_loop env manifestObj configs baseDeployInfo insecureRegistry [] deployInfos st =
     (Inr deployInfos, st)"
| "installations_loop env manifestObj configs baseDeployInfo insecureRegistry (install # installs)
       deployInfos st =
     (let deployInfo = baseDeployInfo
      in case getChartInfoForInstall env install manifestObj insecureRegistry of
           Inl err \<Rightarrow> (Inl err, st)
         | Inr chartInfo \<Rightarrow>
             (case parseChartConfigAndValues env install configs (namespacedName manifestObj) of
                Inl err \<Rightarrow> (Inl err, st)
              | Inr (chartConfig, chartValues) \<Rightarrow>
                  (let chartInfo' = chartInfo\<lparr>ReleaseName := Name install,
                                               Flags := \<lparr>ConfigFlags = chartConfig,
                                                         SetFlags = chartValues\<rparr>\<rparr>;
                       st' = st(deployInfo := (st deployInfo)\<lparr>job_ChartInfo := Some chartInfo'\<rparr>)
                   in installations_loop env manifestObj configs baseDeployInfo insecureRegistry
                        installs (deployInfos @ [deployInfo]) st')))"

definition parseInstallations ::
  "prepare_env \<Rightarrow> Manifest \<Rightarrow> any list \<Rightarrow> nat \<Rightarrow> bool \<Rightarrow> store \<Rightarrow> (error + nat list) \<times> store" where
  "parseInstallations env manifestObj configs baseDeployInfo insecureRegistry st =
     installations_loop env manifestObj configs baseDeployInfo insecureRegistry
       (Installs (Spec manifestObj)) [] st"

text \<open>What the caller reads through the returned pointers.\<close>

definition jobs_of :: "(error + nat list) \<times> store \<Rightarrow> error + types_InstallInfo list" where
  "jobs_of res = (case fst res of Inl err \<Rightarrow> Inl err | Inr ptrs \<Rightarrow> Inr (map (snd res) ptrs))"

definition parseCrds :: "prepare_env \<Rightarrow> Manifest \<Rightarrow> bool \<Rightarrow> error + string list" where
  "parseCrds env manifestObj insecureRegistry =
     (if NotEmpty (img_Type (CRDs (Spec manifestObj))) then
        (case getChartPath env (CRDs (Spec manifestObj)) (meta_Namespace manifestObj)
                insecureRegistry of
           Inl err \<Rightarrow> Inl err
         | Inr crdsPath \<Rightarrow> GetCRDsFromPath env crdsPath)
      else Inr [])"

record ReconcileFlagConfig =
  InsecureRegistry :: bool
  CheckReadyStates :: bool
  CustomStateCheck :: bool
  CustomRESTCfg :: "(string option \<times> error option) option"

text \<open>
  \<^verbatim>\<open>GetInstallInfos\<close> builds the base job in a local variable, whose address is
  \<open>baseDeployInfo\<close> here, and hands that address to \<^verbatim>\<open>parseInstallations\<close>. The CRDs, the
  custom resources and the check function of the job are not read by anything below and
  are left out of the job record. The result is what the caller reads through the
  returned pointers.
\<close>

definition prepare_GetInstallInfos ::
  "prepare_env \<Rightarrow> Manifest \<Rightarrow> ClusterInfo \<Rightarrow> ReconcileFlagConfig
     \<Rightarrow> (string \<times> string \<Rightarrow> (ClusterInfo \<times> error option) option)
     \<Rightarrow> nat \<Rightarrow> store \<Rightarrow> error + types_InstallInfo list" where
  "prepare_GetInstallInfos env manifestObj defaultClusterInfo flags GetProcessor baseDeployInfo st =
     (case parseCrds env manifestObj (InsecureRegistry flags) of
        Inl err \<Rightarrow> Inl err
      | Inr crds \<Rightarrow>
          (case ToUnstructured env manifestObj of
             Some err \<Rightarrow> Inl err
           | None \<Rightarrow>
               (case getDestinationConfigAndClient env defaultClusterInfo manifestObj GetProcessor
                       (CustomRESTCfg flags) of
                  (clusterInfo, Some err) \<Rightarrow> Inl err
                | (clusterInfo, None) \<Rightarrow>
                    (let base = \<lparr>job_ChartInfo = None, job_ClusterInfo = Some clusterInfo,
                                 job_CheckReadyStates = CheckReadyStates flags\<rparr>
                     in case parseConfigs env (Config (Spec manifestObj))
                               (meta_Namespace manifestObj) (InsecureRegistry flags) of
                          Inl err \<Rightarrow> Inl err
                        | Inr configs \<Rightarrow>
                            jobs_of (parseInstallations env manifestObj configs baseDeployInfo
                                       (InsecureRegistry flags) (st(baseDeployInfo := base)))))))"

section \<open>Rendered manifests (pkg/manifest/operations.go)\<close>

text \<open>
  The render source and the file helpers, as functions of their arguments. Each returns
  the Go pair (value, error).
\<close>

record renderer =
  GetManifestResources :: "string \<Rightarrow> string \<Rightarrow> string \<times> error option"
  GetCachedResources :: "string \<Rightarrow> string \<Rightarrow> string \<times> error option"
  GetRawManifest :: "types_InstallInfo \<Rightarrow> string \<times> error option"
  WriteToFile :: "string \<Rightarrow> string \<Rightarrow> error option"
  GetFsManifestChartPath :: "string \<Rightarrow> string"

text \<open>What \<^verbatim>\<open>getManifestForChartPath\<close> calls, in order, with the arguments it passes.\<close>

datatype effect =
    Call_GetManifestResources string string
  | Call_GetCachedResources string string
  | Call_GetRawManifest
  | Call_WriteToFile string string
  | Log_not_cached

text \<open>
  The result is the pair (manifest, error) together with the calls made; reading the chart
  name of a job without chart info panics (\<open>None\<close>).
\<close>

definition getManifestForChartPath ::
  "renderer \<Rightarrow> types_InstallInfo \<Rightarrow> ((string \<times> error option) \<times> effect list) option" where
  "getManifestForChartPath renderSrc deployInfo =
     (case job_ChartInfo deployInfo of
        None \<Rightarrow> None
      | Some chart \<Rightarrow>
          Some
           (let (provided, err1) = GetManifestResources renderSrc (ChartName chart) (ChartPath chart);
                t1 = [Call_GetManifestResources (ChartName chart) (ChartPath chart)]
            in case err1 of
                 Some e \<Rightarrow> (([], Some e), t1)
               | None \<Rightarrow>
                   if provided \<noteq> [] then ((provided, None), t1)
                   else
                     (let (cached, err2) =
                            GetCachedResources renderSrc (ChartName chart) (ChartPath chart);
                          t2 = t1 @ [Call_GetCachedResources (ChartName chart) (ChartPath chart)]
                      in case err2 of
                           Some e \<Rightarrow> (([], Some e), t2)
                         | None \<Rightarrow>
                             if cached \<noteq> [] then ((cached, None), t2)
                             else
                               (let (renderedManifest, err3) = GetRawManifest renderSrc deployInfo;
                                    t3 = t2 @ [Call_GetRawManifest]
                                in case err3 of
                                     Some e \<Rightarrow> (([], Some e), t3)
                                   | None \<Rightarrow>
                                       if ChartPath chart \<noteq> [] then
                                         (let target = GetFsManifestChartPath renderSrc (ChartPath chart);
                                              t4 = t3 @ [Call_WriteToFile target renderedManifest]
                                          in case WriteToFile renderSrc target renderedManifest of
                                               None \<Rightarrow> ((renderedManifest, None), t4)
                                             | Some e \<Rightarrow>
                                                 if \<not> os_IsPermission e
                                                   then ((renderedManifest, Some e), t4)
                                                 else ((renderedManifest, None),
                                                       t4 @ [Log_not_cached]))
                                       else ((renderedManifest, None), t3)))))"

section \<open>Paths of archive entries (pkg/util, CleanFilePathJoin)\<close>

text \<open>
  Go strings are byte strings and so are the strings here. The controller runs on Linux,
  where the separator of package \<^verbatim>\<open>filepath\<close> is the slash, \<^verbatim>\<open>filepath.Clean\<close> is
  \<^verbatim>\<open>path.Clean\<close> and \<^verbatim>\<open>filepath.ToSlash\<close> changes nothing.
\<close>

definition slash :: char where "slash = CHR ''/''"
definition backslash :: char where "backslash = CHR 0x5C"
definition colon :: char where "colon = CHR '':''"

text \<open>\<^verbatim>\<open>strings.Split(s, "/")\<close> for a one-byte separator: never empty, \<open>[[]]\<close> for the empty string.\<close>

fun split_on :: "char \<Rightarrow> string \<Rightarrow> string list" where
  "split_on sep [] = [[]]"
| "split_on sep (c # cs) =
     (if c = sep then [] # split_on sep cs
      else (case split_on sep cs of
              [] \<Rightarrow> [[c]]
            | part # parts \<Rightarrow> (c # part) # parts))"

text \<open>\<^verbatim>\<open>strings.Join(elems, "/")\<close>.\<close>

fun join_with :: "char \<Rightarrow> string list \<Rightarrow> string" where
  "join_with sep [] = []"
| "join_with sep [x] = x"
| "join_with sep (x # y # ys) = x @ sep # join_with sep (y # ys)"

text \<open>\<^verbatim>\<open>strings.ReplaceAll(dest, "\\", "/")\<close>.\<close>

definition ReplaceAll_backslash :: "string \<Rightarrow> string" where
  "ReplaceAll_backslash dest = map (\<lambda>c. if c = backslash then slash else c) dest"

text \<open>\<^verbatim>\<open>path.IsAbs\<close>.\<close>

definition IsAbs :: "string \<Rightarrow> bool" where
  "IsAbs p = (case p of [] \<Rightarrow> False | c # cs \<Rightarrow> c = slash)"

text \<open>
  \<^verbatim>\<open>path.Clean\<close> of the Go library walks the path element by element and keeps the
  elements written so far; \<open>clean_step\<close> is what it does with one element, the elements kept
  being held last first. An empty element and a dot are dropped. A dot-dot removes the
  last element kept when that is a real element; otherwise it is itself kept in a path
  that is not rooted, and dropped in a rooted one. The cleaned path is the kept elements
  joined by slashes, after the leading slash of a rooted path, and a dot when that is empty.
\<close>

definition clean_step :: "bool \<Rightarrow> string list \<Rightarrow> string \<Rightarrow> string list" where
  "clean_step rooted kept element =
     (if element = [] \<or> element = ''.'' then kept
      else if element = ''..'' then
        (case kept of
           [] \<Rightarrow> if rooted then [] else [''..'']
         | newest # older \<Rightarrow>
             if newest \<noteq> ''..'' then older
             else if rooted then kept else ''..'' # kept)
      else element # kept)"

definition clean_elems :: "string \<Rightarrow> string list" where
  "clean_elems p = rev (foldl (clean_step (IsAbs p)) [] (split_on slash p))"

definition render_path :: "bool \<Rightarrow> string list \<Rightarrow> string" where
  "render_path rooted elems =
     (let out = (if rooted then [slash] else []) @ join_with slash elems
      in if out = [] then ''.'' else out)"

definition Clean :: "string \<Rightarrow> string" where
  "Clean p = (if p = [] then ''.'' else render_path (IsAbs p) (clean_elems p))"

text \<open>
  \<^verbatim>\<open>filepath.Join(root, elem)\<close> for two elements: empty elements are ignored, the rest is
  joined by the separator and cleaned; nothing but empty elements gives the empty string.
\<close>

definition Join :: "string \<Rightarrow> string \<Rightarrow> string" where
  "Join root elem =
     (if root \<noteq> [] then Clean (root @ slash # elem)
      else if elem \<noteq> [] then Clean elem
      else [])"

definition ToSlash :: "string \<Rightarrow> string" where
  "ToSlash p = p"

definition CleanFilePathJoin :: "string \<Rightarrow> string \<Rightarrow> error + string" where
  "CleanFilePathJoin root dest =
     (if colon \<in> set dest then Inl (ErrOther ''path contains ':', which is illegal'')
      else
        (let dest' = ReplaceAll_backslash dest
         in if ''..'' \<in> set (split_on slash dest')
              then Inl (ErrOther ''path contains '..', which is illegal'')
            else if IsAbs dest' then Inl (ErrOther ''path is absolute, which is illegal'')
            else Inr (ToSlash (Join root (Clean dest')))))"

text \<open>
  A real path element is a name: not empty, not a dot or dot-dot, and free of slashes. The
  elements \<^verbatim>\<open>path.Clean\<close> keeps (held last first) are dot-dots, in a path that is not
  rooted only, followed by real elements.
\<close>

definition real_element :: "string \<Rightarrow> bool" where
  "real_element element =
     (element \<noteq> [] \<and> element \<noteq> ''.'' \<and> element \<noteq> ''..'' \<and> slash \<notin> set element)"

fun clean_kept :: "bool \<Rightarrow> string list \<Rightarrow> bool" where
  "clean_kept rooted [] = True"
| "clean_kept rooted (x # xs) =
     (if x = ''..'' then \<not> rooted \<and> list_all (\<lambda>y. y = ''..'') xs
      else real_element x \<and> clean_kept rooted xs)"

definition named :: "string \<Rightarrow> bool" where
  "named element = (element \<noteq> [] \<and> element \<noteq> ''.'')"

text \<open>
  A path lies under a root when, both cleaned, they are rooted alike and the root's
  elements are the first elements of the path. The empty root is the current directory.
\<close>

definition under_root :: "string \<Rightarrow> string \<Rightarrow> bool" where
  "under_root root p = (IsAbs p = IsAbs root \<and> prefix (clean_elems root) (clean_elems p))"

text \<open>Concrete inputs on which the theorems below are exercised.\<close>

definition demo_manifest :: "Time option \<Rightarrow> ManifestState \<Rightarrow> InstallInfo list \<Rightarrow> Manifest" where
  "demo_manifest deletion state installs =
     \<lparr>meta_Name = ''sample'', meta_Namespace = ''default'', Generation = 2,
      DeletionTimestamp = deletion, Finalizers = [ManifestFinalizer], Labels = None,
      Spec = \<lparr>Remote = False,
              Config = \<lparr>Repo = [], img_Name = [], Ref = [], img_Type = NilRefType,
                        CredSecretSelector = None\<rparr>,
              Installs = installs,
              CRDs = \<lparr>Repo = [], img_Name = [], Ref = [], img_Type = NilRefType,
                      CredSecretSelector = None\<rparr>\<rparr>,
      Status = \<lparr>State = state, Conditions = [], ObservedGeneration = 1\<rparr>\<rparr>"

definition demo_env :: "Manifest \<Rightarrow> error option \<Rightarrow> env" where
  "demo_env stored updateResult =
     \<lparr>api_Get = Inr stored, api_Update = (\<lambda>obj. updateResult),
      api_StatusUpdate = (\<lambda>obj. None), time_Now = 7,
      json_Marshal = (\<lambda>v. Inr ''{}''), GetInstallInfos = (\<lambda>obj. Inr []),
      NewOperations = (\<lambda>job. None), ops_Install = (\<lambda>job. (True, None)),
      ops_Uninstall = (\<lambda>job. (True, None)), ops_VerifyResources = (\<lambda>job. (True, None))\<rparr>"

definition demo_response :: "string \<Rightarrow> bool \<Rightarrow> error option \<Rightarrow> InstallResponse" where
  "demo_response chart ready err =
     \<lparr>resp_Ready = ready, resp_ChartName = chart, resp_Err = err,
      resp_ClientConfig = [], resp_Overrides = []\<rparr>"

text \<open>
  A prepare environment whose probe reads the source type off the raw payload, whose
  decoders return fixed specs, and whose flag parser returns one entry holding the string.
\<close>

definition demo_prepare_env :: prepare_env where
  "demo_prepare_env =
     \<lparr>LabelSelectorAsSelector = (\<lambda>sel. Inr sel),
      client_List = (\<lambda>sel ns. Inr [''pull-secret'']),
      NewFromPullSecrets = (\<lambda>items. Inr (PullSecretKeychain items)),
      GetConfigFilePath = (\<lambda>img. ''/tmp/config.yaml''),
      DecodeUncompressedLayer = (\<lambda>img insecure kc path. Inl EOF),
      GetPathFromExtractedTarGz = (\<lambda>img insecure kc. Inr ''/tmp/chart''),
      GetSpecType = (\<lambda>raw. if raw = ''helm'' then Inr HelmChartType
                            else if raw = ''oci'' then Inr OciRefType
                            else if raw = ''kustomize'' then Inr KustomizeType
                            else Inr NilRefType),
      Decode_HelmChartSpec = (\<lambda>raw. Inr \<lparr>helm_URL = ''https://helm.nginx.com/stable'',
                                            helm_ChartName = ''nginx-ingress'',
                                            helm_Type = HelmChartType\<rparr>),
      Decode_ImageSpec = (\<lambda>raw. Inr \<lparr>Repo = ''registry'', img_Name = ''chart'', Ref = ''sha'',
                                        img_Type = OciRefType, CredSecretSelector = None\<rparr>),
      Decode_KustomizeSpec = (\<lambda>raw. Inr \<lparr>kust_Path = ''./kustomize'', kust_URL = [],
                                            kust_Type = KustomizeType\<rparr>),
      strvals_ParseInto = (\<lambda>str. Inr (if str = [] then [] else [(''flags'', AStr str)])),
      GetRESTConfig = (\<lambda>secret ns. (Some (''kubeconfig of '' @ secret), None)),
      GetCRDsFromPath = (\<lambda>path. Inr []),
      ToUnstructured = (\<lambda>obj. None)\<rparr>"

definition demo_flags :: ReconcileFlagConfig where
  "demo_flags = \<lparr>InsecureRegistry = False, CheckReadyStates = False, CustomStateCheck = False,
                 CustomRESTCfg = None\<rparr>"

definition host_ClusterInfo :: ClusterInfo where
  "host_ClusterInfo = \<lparr>ci_Config = Some ''host config'', ci_Client = Some ''host client''\<rparr>"

definition blank_store :: store where
  "blank_store = (\<lambda>a. \<lparr>job_ChartInfo = None, job_ClusterInfo = None, job_CheckReadyStates = False\<rparr>)"


definition demo_renderer :: "string \<Rightarrow> string \<Rightarrow> error option \<Rightarrow> renderer" where
  "demo_renderer provided cached writeResult =
     \<lparr>GetManifestResources = (\<lambda>name path. (provided, None)),
      GetCachedResources = (\<lambda>name path. (cached, None)),
      GetRawManifest = (\<lambda>job. (''kind: Deployment'', None)),
      WriteToFile = (\<lambda>path content. writeResult),
      GetFsManifestChartPath = (\<lambda>path. path @ ''/manifest/manifest.yaml'')\<rparr>"

definition demo_job :: "string \<Rightarrow> types_InstallInfo" where
  "demo_job path =
     \<lparr>job_ChartInfo = Some \<lparr>ChartPath = path, RepoName = [], URL = [], ChartName = ''first'',
                            ReleaseName = ''first'',
                            Flags = \<lparr>ConfigFlags = [], SetFlags = []\<rparr>\<rparr>,
      job_ClusterInfo = Some host_ClusterInfo, job_CheckReadyStates = False\<rparr>"

section \<open>Worker pool (operator/controllers/workers.go)\<close>

text \<open>
  \<^verbatim>\<open>ManifestWorkerPool\<close> keeps the size it was constructed with and the current size.
  Go's \<^verbatim>\<open>int\<close> is only compared with zero and copied here, so it is an \<^typ>\<open>int\<close>.
\<close>

record ManifestWorkerPool =
  initialSize :: int
  size :: int

definition NewManifestWorkers :: "int \<Rightarrow> ManifestWorkerPool" where
  "NewManifestWorkers workersConcurrentManifests =
     \<lparr>initialSize = workersConcurrentManifests, size = workersConcurrentManifests\<rparr>"

definition GetWorkerPoolSize :: "ManifestWorkerPool \<Rightarrow> int" where
  "GetWorkerPoolSize mw = size mw"

definition SetWorkerPoolSize :: "ManifestWorkerPool \<Rightarrow> int \<Rightarrow> ManifestWorkerPool" where
  "SetWorkerPoolSize mw newSize =
     (if newSize > 0 then mw\<lparr>size := initialSize mw\<rparr> else mw\<lparr>size := newSize\<rparr>)"

section \<open>Theorems\<close>

lemmas state_defs =
  ManifestStateReady_def ManifestStateProcessing_def ManifestStateError_def
  ManifestStateDeleting_def

declare collect.simps [simp del]

subsection \<open>The response collector\<close>





lemma add_ready_condition_keeps:
  "DeletionTimestamp (add_ready_condition now st msg m it) = DeletionTimestamp m"
  "Finalizers (add_ready_condition now st msg m it) = Finalizers m"
  "Generation (add_ready_condition now st msg m it) = Generation m"
  "State (Status (add_ready_condition now st msg m it)) = State (Status m)"
  by (simp_all add: add_ready_condition_def Let_def)

lemma AddReadyConditionForObjects_keeps:
  "DeletionTimestamp (AddReadyConditionForObjects now m items st msg) = DeletionTimestamp m
   \<and> Finalizers (AddReadyConditionForObjects now m items st msg) = Finalizers m
   \<and> Generation (AddReadyConditionForObjects now m items st msg) = Generation m
   \<and> State (Status (AddReadyConditionForObjects now m items st msg)) = State (Status m)"
  unfolding AddReadyConditionForObjects_def
  by (induction items arbitrary: m) (simp_all add: add_ready_condition_keeps)

lemma add_response_condition_keeps:
  "DeletionTimestamp (add_response_condition mar now m resp) = DeletionTimestamp m
   \<and> Finalizers (add_response_condition mar now m resp) = Finalizers m
   \<and> Generation (add_response_condition mar now m resp) = Generation m
   \<and> State (Status (add_response_condition mar now m resp)) = State (Status m)"
  by (simp add: add_response_condition_def AddReadyConditionForObjects_keeps split: prod.splits)

lemma AddReadyConditionForResponses_keeps:
  "DeletionTimestamp (AddReadyConditionForResponses mar now rs m) = DeletionTimestamp m
   \<and> Finalizers (AddReadyConditionForResponses mar now rs m) = Finalizers m
   \<and> Generation (AddReadyConditionForResponses mar now rs m) = Generation m
   \<and> State (Status (AddReadyConditionForResponses mar now rs m)) = State (Status m)"
  unfolding AddReadyConditionForResponses_def
  by (induction rs arbitrary: m) (simp_all add: add_response_condition_keeps)

lemma status_object_State:
  "State (Status (status_object now m st msg)) = st"
  by (simp add: status_object_def Let_def SetObservedGeneration_def
      AddReadyConditionForObjects_keeps)

lemma status_object_keeps:
  "DeletionTimestamp (status_object now m st msg) = DeletionTimestamp m"
  "Finalizers (status_object now m st msg) = Finalizers m"
  "ObservedGeneration (Status (status_object now m st msg)) = Generation m"
  by (simp_all add: status_object_def Let_def SetObservedGeneration_def
      AddReadyConditionForObjects_keeps)

lemma setProcessedState_call:
  "setProcessedState r e p m = StatusUpdate obj \<Longrightarrow> State (Status obj) = end_state e p m"
  by (auto simp: setProcessedState_def updateManifestStatus_def Let_def status_object_State)

lemma setProcessedState_is_StatusUpdate:
  "\<exists>obj. setProcessedState r e p m = StatusUpdate obj"
  by (simp add: setProcessedState_def updateManifestStatus_def Let_def)









subsection \<open>Finalizer removal\<close>

lemma RemoveFinalizer_keeps:
  "DeletionTimestamp (RemoveFinalizer m f) = DeletionTimestamp m"
  "Status (RemoveFinalizer m f) = Status m"
  "f \<notin> set (Finalizers (RemoveFinalizer m f))"
  by (simp_all add: RemoveFinalizer_def)


text \<open>
  C3 (as amended). When the aggregator has observed no error and nothing processing and the
  Manifest's deletion timestamp is set, it removes the finalizer and sends the Manifest in
  an object update. When that update succeeds the collector returns and sends no status
  update. If and only if the update fails it escalates to the error path: it then sends
  one status update, whose state is Error.
\<close>

theorem finalizer_removal_on_clean_deletion:
  assumes collected: "collect 1 chartCount events False False [] = Collected False False responses"
    and located: "api_Get r = Inr latest"
    and deleting: "\<not> IsZero (DeletionTimestamp latest)"
  shows "let noted = AddReadyConditionForResponses (json_Marshal r) (time_Now r) responses latest;
             unfinalized = RemoveFinalizer noted ManifestFinalizer
         in ManifestFinalizer \<notin> set (Finalizers unfinalized)
          \<and> (api_Update r unfinalized = None \<longrightarrow>
               ResponseHandlerFunc r chartCount events = (ExitFinalizerRemoved, [Update unfinalized]))
          \<and> (api_Update r unfinalized \<noteq> None \<longrightarrow>
               (\<exists>obj. ResponseHandlerFunc r chartCount events =
                        (ExitStateSet, [Update unfinalized, StatusUpdate obj])
                    \<and> State (Status obj) = ManifestStateError))"
proof -
  define noted where "noted = AddReadyConditionForResponses (json_Marshal r) (time_Now r) responses latest"
  define unfinalized where "unfinalized = RemoveFinalizer noted ManifestFinalizer"
  have del: "\<not> IsZero (DeletionTimestamp noted)"
    using deleting by (simp add: noted_def AddReadyConditionForResponses_keeps)
  have a: "ManifestFinalizer \<notin> set (Finalizers unfinalized)"
    by (simp add: unfinalized_def RemoveFinalizer_keeps)
  have b: "api_Update r unfinalized = None \<Longrightarrow>
      ResponseHandlerFunc r chartCount events = (ExitFinalizerRemoved, [Update unfinalized])"
    using collected located del
    by (simp add: ResponseHandlerFunc_def Let_def noted_def[symmetric] unfinalized_def[symmetric])
  have c: "\<exists>obj. ResponseHandlerFunc r chartCount events =
                        (ExitStateSet, [Update unfinalized, StatusUpdate obj])
                    \<and> State (Status obj) = ManifestStateError"
    if "api_Update r unfinalized \<noteq> None"
  proof -
    from that obtain err where err: "api_Update r unfinalized = Some err" by auto
    obtain obj where obj: "setProcessedState r True False unfinalized = StatusUpdate obj"
      using setProcessedState_is_StatusUpdate by blast
    from setProcessedState_call[OF obj] have "State (Status obj) = ManifestStateError"
      by (simp add: end_state_def)
    moreover have "ResponseHandlerFunc r chartCount events =
                        (ExitStateSet, [Update unfinalized, StatusUpdate obj])"
      using collected located del err obj
      by (simp add: ResponseHandlerFunc_def Let_def noted_def[symmetric] unfinalized_def[symmetric])
    ultimately show ?thesis by blast
  qed
  from a b c show ?thesis
    unfolding Let_def noted_def[symmetric] unfinalized_def[symmetric] by blast
qed


theorem finalizer_removal_on_clean_deletion_witness:
  "fst (ResponseHandlerFunc
          (demo_env (demo_manifest (Some 5) ManifestStateDeleting []) (Some (ErrOther ''conflict''))) 1
          [Recv (demo_response ''a'' True None)]) = ExitStateSet
   \<and> map is_StatusUpdate (snd (ResponseHandlerFunc
          (demo_env (demo_manifest (Some 5) ManifestStateDeleting []) (Some (ErrOther ''conflict''))) 1
          [Recv (demo_response ''a'' True None)])) = [False, True]
   \<and> map (\<lambda>c. State (Status (sent_object c))) (snd (ResponseHandlerFunc
          (demo_env (demo_manifest (Some 5) ManifestStateDeleting []) (Some (ErrOther ''conflict''))) 1
          [Recv (demo_response ''a'' True None)])) = [ManifestStateDeleting, ManifestStateError]"
proof -
  let ?m = "demo_manifest (Some 5) ManifestStateDeleting []"
  let ?r = "demo_env ?m (Some (ErrOther ''conflict''))"
  let ?a = "demo_response ''a'' True None"
  have collected: "collect 1 1 [Recv ?a] False False [] = Collected False False [?a]"
    by (simp add: collect.simps demo_response_def)
  have located: "api_Get ?r = Inr ?m" by (simp add: demo_env_def)
  have deleting: "\<not> IsZero (DeletionTimestamp ?m)" by (simp add: demo_manifest_def IsZero_def)
  have fails: "\<And>u. api_Update ?r u \<noteq> None" by (simp add: demo_env_def)
  from finalizer_removal_on_clean_deletion[OF collected located deleting] fails
  show ?thesis
    by (auto simp: Let_def RemoveFinalizer_keeps AddReadyConditionForResponses_keeps
        demo_manifest_def)
qed

text \<open>
  The claim as first stated has the collector write a final status update after removing
  the finalizer. On a deleting Manifest with one ready response and a successful update
  the only write is the object update.
\<close>

theorem final_status_update_counterexample:
  "fst (ResponseHandlerFunc (demo_env (demo_manifest (Some 5) ManifestStateDeleting []) None) 1
          [Recv (demo_response ''a'' True None)]) = ExitFinalizerRemoved
   \<and> map is_StatusUpdate
       (snd (ResponseHandlerFunc (demo_env (demo_manifest (Some 5) ManifestStateDeleting []) None) 1
          [Recv (demo_response ''a'' True None)])) = [False]"
  by (simp add: ResponseHandlerFunc_def collect.simps demo_env_def demo_response_def
      demo_manifest_def IsZero_def AddReadyConditionForResponses_keeps Let_def)


subsection \<open>Status writes during deletion\<close>

lemma wrote_writes: "writes (wrote w) = [fst w]"
  by (simp add: wrote_def no_result_def)

lemma AddFinalizer_keeps:
  "Status (AddFinalizer m f) = Status m"
  "DeletionTimestamp (AddFinalizer m f) = DeletionTimestamp m"
  by (simp_all add: AddFinalizer_def)

lemma sendJobToInstallChannel_writes: "writes (sendJobToInstallChannel r m mode) = []"
  by (simp add: sendJobToInstallChannel_def Let_def no_result_def split: sum.splits)

lemma Reconcile_deleting_writes:
  assumes located: "api_Get r = Inr m" and deleting: "\<not> IsZero (DeletionTimestamp m)"
  shows "\<forall>c \<in> set (writes (Reconcile r)).
           (is_StatusUpdate c \<longrightarrow> State (Status (sent_object c)) = ManifestStateDeleting)
         \<and> (\<not> is_StatusUpdate c \<longrightarrow> State (Status (sent_object c)) = State (Status m))"
proof (cases "State (Status m) = ManifestStateDeleting")
  case False
  with located deleting show ?thesis
    by (simp add: Reconcile_def wrote_writes updateManifestStatus_def Let_def status_object_State)
next
  case True
  show ?thesis
  proof (cases "ContainsFinalizer m ManifestFinalizer")
    case False
    with True located deleting show ?thesis
      by (simp add: Reconcile_def wrote_writes updateManifest_def AddFinalizer_keeps)
  next
    case fin: True
    have "Reconcile r = HandleDeletingState r m"
      using True fin located deleting by (simp add: Reconcile_def state_defs)
    then show ?thesis
      by (simp add: HandleDeletingState_def sendJobToInstallChannel_writes)
  qed
qed

lemma handler_deleting_writes:
  assumes located: "api_Get r = Inr latest" and deleting: "\<not> IsZero (DeletionTimestamp latest)"
    and run: "ResponseHandlerFunc r chartCount events = (how, calls)"
    and c: "c \<in> set calls"
  shows "(is_StatusUpdate c \<longrightarrow>
            State (Status (sent_object c)) = ManifestStateDeleting
          \<or> State (Status (sent_object c)) = ManifestStateError)
       \<and> (\<not> is_StatusUpdate c \<longrightarrow> State (Status (sent_object c)) = State (Status latest))"
proof (cases "collect 1 chartCount events False False []")
  case ContextClosed
  with run c show ?thesis by (auto simp: ResponseHandlerFunc_def)
next
  case Blocked
  with run c show ?thesis by (auto simp: ResponseHandlerFunc_def)
next
  case (Collected e p rs)
  define m1 where "m1 = AddReadyConditionForResponses (json_Marshal r) (time_Now r) rs latest"
  have del1: "\<not> IsZero (DeletionTimestamp m1)" and st1: "State (Status m1) = State (Status latest)"
    using deleting by (simp_all add: m1_def AddReadyConditionForResponses_keeps)
  have es: "end_state e' p' m' = ManifestStateDeleting \<or> end_state e' p' m' = ManifestStateError"
    if "\<not> IsZero (DeletionTimestamp m')" for e' p' m'
    using that by (simp add: end_state_def)
  show ?thesis
  proof (cases "\<not> e \<and> \<not> p")
    case True
    define m2 where "m2 = RemoveFinalizer m1 ManifestFinalizer"
    obtain obj where obj: "setProcessedState r True p m2 = StatusUpdate obj"
      using setProcessedState_is_StatusUpdate by blast
    from setProcessedState_call[OF obj] have so: "State (Status obj) = ManifestStateError"
      by (simp add: end_state_def)
    have "calls = [Update m2] \<or> calls = [Update m2, StatusUpdate obj]"
      using run Collected located del1 True obj
      by (auto simp: ResponseHandlerFunc_def Let_def m1_def[symmetric] m2_def[symmetric]
          split: option.splits)
    with c so st1 show ?thesis
      by (auto simp: m2_def RemoveFinalizer_keeps)
  next
    case False
    obtain obj where obj: "setProcessedState r e p m1 = StatusUpdate obj"
      using setProcessedState_is_StatusUpdate by blast
    from setProcessedState_call[OF obj] es[OF del1]
    have so: "State (Status obj) = ManifestStateDeleting \<or> State (Status obj) = ManifestStateError"
      by simp
    have "calls = [StatusUpdate obj]"
      using run Collected located del1 False obj
      by (auto simp: ResponseHandlerFunc_def Let_def m1_def[symmetric])
    with c so show ?thesis by auto
  qed
qed

text \<open>
  C2 (as amended). For every Manifest whose deletion timestamp is set, every status update
  that a pass of Reconcile sends has state Deleting, and every status update that the
  response collector sends has state Deleting or Error; no step writes Processing or Ready.
  Object updates (adding or removing the finalizer) leave the state as it was read.
\<close>

theorem deleting_manifest_status_writes:
  assumes located: "api_Get r = Inr m" and deleting: "\<not> IsZero (DeletionTimestamp m)"
  shows "(\<forall>c \<in> set (writes (Reconcile r)).
            (is_StatusUpdate c \<longrightarrow> State (Status (sent_object c)) = ManifestStateDeleting)
          \<and> (\<not> is_StatusUpdate c \<longrightarrow> State (Status (sent_object c)) = State (Status m)))
       \<and> (\<forall>c \<in> set (snd (ResponseHandlerFunc r chartCount events)).
            (is_StatusUpdate c \<longrightarrow>
               State (Status (sent_object c)) = ManifestStateDeleting
             \<or> State (Status (sent_object c)) = ManifestStateError)
          \<and> (\<not> is_StatusUpdate c \<longrightarrow> State (Status (sent_object c)) = State (Status m)))"
proof -
  obtain how calls where run: "ResponseHandlerFunc r chartCount events = (how, calls)"
    by (cases "ResponseHandlerFunc r chartCount events")
  from Reconcile_deleting_writes[OF located deleting]
    handler_deleting_writes[OF located deleting run] run
  show ?thesis by simp
qed


theorem deleting_manifest_status_writes_witness:
  "map is_StatusUpdate
     (writes (Reconcile (demo_env (demo_manifest (Some 5) ManifestStateReady []) None))) = [True]
   \<and> map (\<lambda>c. State (Status (sent_object c)))
     (writes (Reconcile (demo_env (demo_manifest (Some 5) ManifestStateReady []) None)))
     = [ManifestStateDeleting]"
proof -
  let ?m = "demo_manifest (Some 5) ManifestStateReady []"
  let ?r = "demo_env ?m None"
  have located: "api_Get ?r = Inr ?m" by (simp add: demo_env_def)
  have deleting: "\<not> IsZero (DeletionTimestamp ?m)" by (simp add: demo_manifest_def IsZero_def)
  have state: "State (Status ?m) \<noteq> ManifestStateDeleting"
    by (simp add: demo_manifest_def state_defs)
  obtain obj where w: "writes (Reconcile ?r) = [StatusUpdate obj]"
    by (simp add: Reconcile_def located deleting state wrote_writes updateManifestStatus_def
        Let_def)
  from deleting_manifest_status_writes[OF located deleting, of 0 "[]"] w
  show ?thesis by simp
qed


text \<open>
  The claim as first stated allows only Deleting. A deleting Manifest whose single
  uninstall response carries an error is written with state Error.
\<close>

theorem error_while_deleting_counterexample:
  "\<not> IsZero (DeletionTimestamp (demo_manifest (Some 5) ManifestStateDeleting []))
   \<and> map (\<lambda>c. State (Status (sent_object c)))
       (filter is_StatusUpdate
         (snd (ResponseHandlerFunc
                 (demo_env (demo_manifest (Some 5) ManifestStateDeleting []) None) 1
                 [Recv (demo_response ''a'' False (Some (ErrOther ''uninstall failed'')))])))
     = [ManifestStateError]
   \<and> ManifestStateError \<noteq> ManifestStateDeleting"
  by (simp add: ResponseHandlerFunc_def collect.simps demo_env_def demo_response_def
      demo_manifest_def IsZero_def AddReadyConditionForResponses_keeps Let_def
      setProcessedState_def updateManifestStatus_def status_object_State end_state_def state_defs)

subsection \<open>Prepared jobs\<close>

text \<open>
  C5. PreparePhase is to return one job per install, in order, each carrying its own
  install's chart info. The code returns one pointer per install, but every pointer is the
  address of the one base job, whose chart info each iteration overwrites: for the two
  installs \<open>first\<close> (Kustomize) and \<open>second\<close> (OCI) both returned jobs carry the chart
  info of \<open>second\<close>.
\<close>

theorem parseInstallations_shares_chart_info:
  "prepare_GetInstallInfos demo_prepare_env
      (demo_manifest None ManifestStateProcessing
         [\<lparr>Source_Raw = ''kustomize'', Name = ''first''\<rparr>, \<lparr>Source_Raw = ''oci'', Name = ''second''\<rparr>])
      host_ClusterInfo demo_flags (\<lambda>key. None) 0 blank_store
   = Inr [\<lparr>job_ChartInfo = Some \<lparr>ChartPath = ''/tmp/chart'', RepoName = [], URL = [],
                                   ChartName = ''second'', ReleaseName = ''second'',
                                   Flags = \<lparr>ConfigFlags = [], SetFlags = []\<rparr>\<rparr>,
            job_ClusterInfo = Some host_ClusterInfo, job_CheckReadyStates = False\<rparr>,
          \<lparr>job_ChartInfo = Some \<lparr>ChartPath = ''/tmp/chart'', RepoName = [], URL = [],
                                   ChartName = ''second'', ReleaseName = ''second'',
                                   Flags = \<lparr>ConfigFlags = [], SetFlags = []\<rparr>\<rparr>,
            job_ClusterInfo = Some host_ClusterInfo, job_CheckReadyStates = False\<rparr>]"
  by (simp add: prepare_GetInstallInfos_def parseCrds_def NotEmpty_def demo_manifest_def
      demo_prepare_env_def demo_flags_def getDestinationConfigAndClient_def parseConfigs_def
      jobs_of_def parseInstallations_def getChartInfoForInstall_def createKustomizeChartInfo_def
      createOciChartInfo_def getChartPath_def configKeyChain_def parseChartConfigAndValues_def
      empty_ChartInfo_def namespacedName_def Let_def)

subsection \<open>Per-chart conditions\<close>










subsection \<open>Target cluster resolution\<close>

text \<open>
  C4. Target-cluster resolution returns the host cluster info unchanged, with no error,
  for a Manifest with Remote false. For Remote true it returns an error when the cache-key
  label is absent (the error of the label lookup, with an empty cluster info); when a processor is cached under the owner key it returns what that
  processor's GetClusterInfo returns; otherwise it calls the custom config getter, or the
  default secret based one when there is no custom getter, and returns the getter's
  error if it fails and else a cluster info holding the config, in either case with no
  client set.
\<close>

theorem getDestinationConfigAndClient_cases:
  "(\<not> Remote (Spec manifestObj) \<longrightarrow>
      getDestinationConfigAndClient env defaultClusterInfo manifestObj GetProcessor customCfgGetter
        = (defaultClusterInfo, None))
   \<and> (Remote (Spec manifestObj)
        \<and> (Labels manifestObj = None
            \<or> (\<exists>ls. Labels manifestObj = Some ls \<and> CacheKey \<notin> fst ` set ls)) \<longrightarrow>
      snd (getDestinationConfigAndClient env defaultClusterInfo manifestObj GetProcessor
             customCfgGetter) \<noteq> None)
   \<and> (\<forall>err. Remote (Spec manifestObj)
        \<and> GetResourceLabel manifestObj CacheKey = Inl err \<longrightarrow>
      getDestinationConfigAndClient env defaultClusterInfo manifestObj GetProcessor customCfgGetter
        = (empty_ClusterInfo, Some err))
   \<and> (\<forall>owner found. Remote (Spec manifestObj)
        \<and> GetResourceLabel manifestObj CacheKey = Inr owner
        \<and> GetProcessor (owner, meta_Namespace manifestObj) = Some found \<longrightarrow>
      getDestinationConfigAndClient env defaultClusterInfo manifestObj GetProcessor customCfgGetter
        = found)
   \<and> (\<forall>owner. Remote (Spec manifestObj)
        \<and> GetResourceLabel manifestObj CacheKey = Inr owner
        \<and> GetProcessor (owner, meta_Namespace manifestObj) = None \<longrightarrow>
      (let got = (case customCfgGetter of
                    Some called \<Rightarrow> called
                  | None \<Rightarrow> GetRESTConfig env owner (meta_Namespace manifestObj));
           res = getDestinationConfigAndClient env defaultClusterInfo manifestObj GetProcessor
                   customCfgGetter
       in ci_Client (fst res) = None
        \<and> (snd got = None \<longrightarrow> res = (\<lparr>ci_Config = fst got, ci_Client = None\<rparr>, None))
        \<and> (snd got \<noteq> None \<longrightarrow> res = (empty_ClusterInfo, snd got))))"
proof -
  have a: "\<not> Remote (Spec manifestObj) \<Longrightarrow>
      getDestinationConfigAndClient env defaultClusterInfo manifestObj GetProcessor customCfgGetter
        = (defaultClusterInfo, None)"
    by (simp add: getDestinationConfigAndClient_def)
  have nolabel: "\<exists>e. GetResourceLabel manifestObj CacheKey = Inl e"
    if "Labels manifestObj = None \<or> (\<exists>ls. Labels manifestObj = Some ls \<and> CacheKey \<notin> fst ` set ls)"
  proof -
    from that have "Labels manifestObj = None
        \<or> (\<exists>ls. Labels manifestObj = Some ls \<and> map_of ls CacheKey = None)"
      by (simp add: map_of_eq_None_iff)
    then show ?thesis by (auto simp: GetResourceLabel_def)
  qed
  have b: "snd (getDestinationConfigAndClient env defaultClusterInfo manifestObj GetProcessor
             customCfgGetter) \<noteq> None"
    if "Remote (Spec manifestObj)"
      "Labels manifestObj = None \<or> (\<exists>ls. Labels manifestObj = Some ls \<and> CacheKey \<notin> fst ` set ls)"
    using that(1) nolabel[OF that(2)] by (auto simp: getDestinationConfigAndClient_def)
  have b': "getDestinationConfigAndClient env defaultClusterInfo manifestObj GetProcessor
               customCfgGetter = (empty_ClusterInfo, Some err)"
    if "Remote (Spec manifestObj)" "GetResourceLabel manifestObj CacheKey = Inl err" for err
    using that by (simp add: getDestinationConfigAndClient_def)
  have c: "getDestinationConfigAndClient env defaultClusterInfo manifestObj GetProcessor customCfgGetter
        = found"
    if "Remote (Spec manifestObj)" "GetResourceLabel manifestObj CacheKey = Inr owner"
      "GetProcessor (owner, meta_Namespace manifestObj) = Some found" for owner found
    using that by (simp add: getDestinationConfigAndClient_def)
  have d: "let got = (case customCfgGetter of
                    Some called \<Rightarrow> called
                  | None \<Rightarrow> GetRESTConfig env owner (meta_Namespace manifestObj));
           res = getDestinationConfigAndClient env defaultClusterInfo manifestObj GetProcessor
                   customCfgGetter
       in ci_Client (fst res) = None
        \<and> (snd got = None \<longrightarrow> res = (\<lparr>ci_Config = fst got, ci_Client = None\<rparr>, None))
        \<and> (snd got \<noteq> None \<longrightarrow> res = (empty_ClusterInfo, snd got))"
    if "Remote (Spec manifestObj)" "GetResourceLabel manifestObj CacheKey = Inr owner"
      "GetProcessor (owner, meta_Namespace manifestObj) = None" for owner
    using that
    by (auto simp: getDestinationConfigAndClient_def Let_def empty_ClusterInfo_def
        split: option.splits prod.splits)
  from a b b' c d show ?thesis by blast
qed

theorem getDestinationConfigAndClient_cases_witness:
  "getDestinationConfigAndClient demo_prepare_env host_ClusterInfo
     ((demo_manifest None ManifestStateProcessing [])
        \<lparr>Labels := Some [(CacheKey, ''kyma'')],
         Spec := (Spec (demo_manifest None ManifestStateProcessing []))\<lparr>Remote := True\<rparr>\<rparr>)
     (\<lambda>key. None) None
   = (\<lparr>ci_Config = Some ''kubeconfig of kyma'', ci_Client = None\<rparr>, None)"
proof -
  let ?m = "(demo_manifest None ManifestStateProcessing [])
        \<lparr>Labels := Some [(CacheKey, ''kyma'')],
         Spec := (Spec (demo_manifest None ManifestStateProcessing []))\<lparr>Remote := True\<rparr>\<rparr>"
  have remote: "Remote (Spec ?m)" by simp
  have label: "GetResourceLabel ?m CacheKey = Inr ''kyma''"
    by (simp add: GetResourceLabel_def)
  have ns: "meta_Namespace (demo_manifest None ManifestStateProcessing []) = ''default''"
    by (simp add: demo_manifest_def)
  have got: "GetRESTConfig demo_prepare_env ''kyma'' ''default'' = (Some ''kubeconfig of kyma'', None)"
    by (simp add: demo_prepare_env_def)
  from getDestinationConfigAndClient_cases[of ?m demo_prepare_env host_ClusterInfo "\<lambda>key. None" None]
    remote label
  show ?thesis
    by (simp add: Let_def ns got)
qed


subsection \<open>The config layer\<close>

text \<open>
  C8. Decoding the optional config layer: when the type of the config image spec is empty
  the result is the empty config list whatever the layer readers would return; when
  decoding fails with an error that is EOF or unexpected EOF the result is the empty list
  with no error; every other decoding error is returned.
\<close>

theorem parseConfigs_cases:
  "(\<not> NotEmpty (img_Type config) \<longrightarrow>
      parseConfigs env config namespace insecureRegistry = Inr [])
   \<and> (\<forall>err. NotEmpty (img_Type config)
        \<and> getDecodedConfig env namespace insecureRegistry config (GetConfigFilePath env config)
            = Inl err \<longrightarrow>
      (errors_Is err EOF \<or> errors_Is err ErrUnexpectedEOF \<longrightarrow>
         parseConfigs env config namespace insecureRegistry = Inr [])
      \<and> (\<not> errors_Is err EOF \<and> \<not> errors_Is err ErrUnexpectedEOF \<longrightarrow>
         parseConfigs env config namespace insecureRegistry = Inl err))"
  by (auto simp: parseConfigs_def)

theorem parseConfigs_cases_witness:
  "parseConfigs demo_prepare_env
     \<lparr>Repo = ''registry'', img_Name = ''config'', Ref = ''sha'', img_Type = OciRefType,
      CredSecretSelector = None\<rparr> ''default'' False = Inr []
   \<and> parseConfigs (demo_prepare_env\<lparr>DecodeUncompressedLayer :=
                      (\<lambda>img insecure kc path. Inl (ErrOther ''connection refused''))\<rparr>)
     \<lparr>Repo = ''registry'', img_Name = ''config'', Ref = ''sha'', img_Type = OciRefType,
      CredSecretSelector = None\<rparr> ''default'' False = Inl (ErrOther ''connection refused'')"
proof -
  let ?config = "\<lparr>Repo = ''registry'', img_Name = ''config'', Ref = ''sha'', img_Type = OciRefType,
      CredSecretSelector = None\<rparr>"
  let ?env' = "demo_prepare_env\<lparr>DecodeUncompressedLayer :=
                      (\<lambda>img insecure kc path. Inl (ErrOther ''connection refused''))\<rparr>"
  have t: "NotEmpty (img_Type ?config)" by (simp add: NotEmpty_def)
  have d1: "getDecodedConfig demo_prepare_env ''default'' False ?config
              (GetConfigFilePath demo_prepare_env ?config) = Inl EOF"
    by (simp add: getDecodedConfig_def configKeyChain_def demo_prepare_env_def)
  have d2: "getDecodedConfig ?env' ''default'' False ?config
              (GetConfigFilePath ?env' ?config) = Inl (ErrOther ''connection refused'')"
    by (simp add: getDecodedConfig_def configKeyChain_def demo_prepare_env_def)
  from parseConfigs_cases[of ?config demo_prepare_env "''default''" False] t d1
  have "parseConfigs demo_prepare_env ?config ''default'' False = Inr []" by simp
  moreover from parseConfigs_cases[of ?config ?env' "''default''" False] t d2
  have "parseConfigs ?env' ?config ''default'' False = Inl (ErrOther ''connection refused'')"
    by simp
  ultimately show ?thesis by simp
qed

subsection \<open>Acquiring the rendered manifest\<close>

text \<open>
  C6. Rendered-manifest acquisition follows a strict priority order. It asks for the
  pre-rendered file at the chart path and returns it if it is present; otherwise it asks
  for the cached rendered file and returns it if present; otherwise it calls the renderer's
  raw render and, when a static chart path was passed, writes the output to the manifest
  file of that path. A write that fails with a permission error is tolerated: the rendered
  manifest is returned with no error. Any other write failure is returned as the error,
  next to the rendered manifest. An error of one of the three reads is returned at once,
  before any later step.
\<close>

theorem getManifestForChartPath_priority:
  assumes chart: "job_ChartInfo deployInfo = Some chart"
  shows
    "let provided = GetManifestResources renderSrc (ChartName chart) (ChartPath chart);
         cached = GetCachedResources renderSrc (ChartName chart) (ChartPath chart);
         raw = GetRawManifest renderSrc deployInfo;
         target = GetFsManifestChartPath renderSrc (ChartPath chart);
         persisted = WriteToFile renderSrc target (fst raw);
         t1 = [Call_GetManifestResources (ChartName chart) (ChartPath chart)];
         t2 = t1 @ [Call_GetCachedResources (ChartName chart) (ChartPath chart)];
         t3 = t2 @ [Call_GetRawManifest];
         t4 = t3 @ [Call_WriteToFile target (fst raw)];
         res = getManifestForChartPath renderSrc deployInfo
     in (\<forall>e. snd provided = Some e \<longrightarrow> res = Some (([], Some e), t1))
      \<and> (snd provided = None \<and> fst provided \<noteq> [] \<longrightarrow> res = Some ((fst provided, None), t1))
      \<and> (snd provided = None \<and> fst provided = [] \<longrightarrow>
           (\<forall>e. snd cached = Some e \<longrightarrow> res = Some (([], Some e), t2))
         \<and> (snd cached = None \<and> fst cached \<noteq> [] \<longrightarrow> res = Some ((fst cached, None), t2))
         \<and> (snd cached = None \<and> fst cached = [] \<longrightarrow>
              (\<forall>e. snd raw = Some e \<longrightarrow> res = Some (([], Some e), t3))
            \<and> (snd raw = None \<and> ChartPath chart = [] \<longrightarrow> res = Some ((fst raw, None), t3))
            \<and> (snd raw = None \<and> ChartPath chart \<noteq> [] \<longrightarrow>
                 (persisted = None \<longrightarrow> res = Some ((fst raw, None), t4))
               \<and> (\<forall>e. persisted = Some e \<and> os_IsPermission e \<longrightarrow>
                      res = Some ((fst raw, None), t4 @ [Log_not_cached]))
               \<and> (\<forall>e. persisted = Some e \<and> \<not> os_IsPermission e \<longrightarrow>
                      res = Some ((fst raw, Some e), t4)))))"
  using chart
  by (auto simp: getManifestForChartPath_def Let_def split: prod.splits option.splits)

theorem getManifestForChartPath_priority_witness:
  "getManifestForChartPath (demo_renderer [] [] (Some (ErrPermission ''/charts/first'')))
      (demo_job ''/charts/first'')
   = Some ((''kind: Deployment'', None),
           [Call_GetManifestResources ''first'' ''/charts/first'',
            Call_GetCachedResources ''first'' ''/charts/first'',
            Call_GetRawManifest,
            Call_WriteToFile ''/charts/first/manifest/manifest.yaml'' ''kind: Deployment'',
            Log_not_cached])"
proof -
  let ?r = "demo_renderer [] [] (Some (ErrPermission ''/charts/first''))"
  let ?chart = "\<lparr>ChartPath = ''/charts/first'', RepoName = [], URL = [], ChartName = ''first'',
                            ReleaseName = ''first'',
                            Flags = \<lparr>ConfigFlags = [], SetFlags = []\<rparr>\<rparr>"
  have chart: "job_ChartInfo (demo_job ''/charts/first'') = Some ?chart"
    by (simp add: demo_job_def)
  from getManifestForChartPath_priority[OF chart, of ?r]
  show ?thesis
    by (simp add: Let_def demo_renderer_def)
qed

subsection \<open>Cleaning archive paths\<close>

lemma split_on_not_Nil: "split_on sep s \<noteq> []"
  by (induction s) (auto split: list.splits)

lemma split_on_no_sep: "part \<in> set (split_on sep s) \<Longrightarrow> sep \<notin> set part"
proof (induction s arbitrary: part)
  case Nil
  then show ?case by simp
next
  case (Cons c cs)
  show ?case
  proof (cases "c = sep")
    case True
    with Cons show ?thesis by auto
  next
    case False
    obtain p ps where ps: "split_on sep cs = p # ps"
      using split_on_not_Nil[of sep cs] by (cases "split_on sep cs") auto
    with Cons.prems False have "part = c # p \<or> part \<in> set ps" by auto
    with Cons.IH ps False show ?thesis by auto
  qed
qed

lemma split_on_append:
  "split_on sep (a @ sep # b) = split_on sep a @ split_on sep b"
proof (induction a)
  case Nil
  then show ?case by simp
next
  case (Cons c cs)
  obtain p ps where ps: "split_on sep cs = p # ps"
    using split_on_not_Nil[of sep cs] by (cases "split_on sep cs") auto
  with Cons show ?case by auto
qed

lemma split_on_no_sep_id: "sep \<notin> set x \<Longrightarrow> split_on sep x = [x]"
  by (induction x) auto

lemma split_on_join:
  "xs \<noteq> [] \<Longrightarrow> \<forall>x\<in>set xs. sep \<notin> set x \<Longrightarrow> split_on sep (join_with sep xs) = xs"
proof (induction sep xs rule: join_with.induct)
  case (1 sep)
  then show ?case by simp
next
  case (2 sep x)
  then show ?case by (simp add: split_on_no_sep_id)
next
  case (3 sep x y ys)
  then have "split_on sep (join_with sep (y # ys)) = y # ys" by simp
  moreover have "split_on sep x = [x]" using 3 by (simp add: split_on_no_sep_id)
  ultimately show ?case by (simp add: split_on_append)
qed

lemma clean_step_kept:
  assumes "clean_kept rooted kept" "slash \<notin> set c"
  shows "clean_kept rooted (clean_step rooted kept c)"
proof (cases kept)
  case Nil
  with assms show ?thesis by (simp add: clean_step_def real_element_def)
next
  case (Cons x xs)
  with assms show ?thesis
    by (auto simp: clean_step_def real_element_def split: if_splits)
qed

lemma foldl_clean_step_kept:
  "clean_kept rooted kept \<Longrightarrow> \<forall>c\<in>set comps. slash \<notin> set c \<Longrightarrow>
     clean_kept rooted (foldl (clean_step rooted) kept comps)"
  by (induction comps arbitrary: kept) (simp_all add: clean_step_kept)

lemma clean_step_push:
  "clean_kept rooted (x # xs) \<Longrightarrow> clean_step rooted xs x = x # xs"
  by (cases xs) (auto simp: clean_step_def real_element_def split: if_splits)

lemma clean_kept_tail: "clean_kept rooted (x # xs) \<Longrightarrow> clean_kept rooted xs"
  by (induction xs arbitrary: x) (auto split: if_splits)

lemma foldl_clean_step_again:
  "clean_kept rooted kept \<Longrightarrow> foldl (clean_step rooted) [] (rev kept) = kept"
proof (induction kept)
  case Nil
  then show ?case by simp
next
  case (Cons x xs)
  from clean_kept_tail[OF Cons.prems] Cons.IH
  have "foldl (clean_step rooted) [] (rev xs) = xs" by simp
  with clean_step_push[OF Cons.prems] show ?case by simp
qed

lemma foldl_clean_step_no_dotdot:
  "''..'' \<notin> set comps \<Longrightarrow>
     foldl (clean_step rooted) kept comps = rev (filter named comps) @ kept"
  by (induction comps arbitrary: kept) (auto simp: clean_step_def named_def)

lemma clean_kept_elements:
  "clean_kept rooted kept \<Longrightarrow> x \<in> set kept \<Longrightarrow> x \<noteq> [] \<and> slash \<notin> set x"
proof (induction kept)
  case Nil
  then show ?case by simp
next
  case (Cons y ys)
  show ?case
  proof (cases "y = ''..''")
    case True
    with Cons.prems have "x = ''..''" by (auto simp: list_all_iff)
    then show ?thesis by (simp add: slash_def)
  next
    case False
    with Cons show ?thesis by (auto simp: real_element_def)
  qed
qed

lemma clean_kept_real_append:
  "list_all real_element ds \<Longrightarrow> clean_kept rooted kept \<Longrightarrow> clean_kept rooted (rev ds @ kept)"
proof (induction ds arbitrary: kept)
  case Nil
  then show ?case by simp
next
  case (Cons d ds)
  then have "clean_kept rooted (d # kept)" by (simp add: real_element_def)
  with Cons show ?case by simp
qed

lemma join_with_Cons_not_abs:
  "es \<noteq> [] \<Longrightarrow> \<forall>x\<in>set es. x \<noteq> [] \<and> slash \<notin> set x \<Longrightarrow>
     join_with slash es \<noteq> [] \<and> \<not> IsAbs (join_with slash es)"
proof (induction slash es rule: join_with.induct)
  case 1
  then show ?case by simp
next
  case (2 x)
  then show ?case by (cases x) (auto simp: IsAbs_def)
next
  case (3 x y ys)
  then show ?case by (cases x) (auto simp: IsAbs_def)
qed

lemma IsAbs_render_path:
  assumes "clean_kept rooted (rev es)"
  shows "IsAbs (render_path rooted es) = rooted" and "render_path rooted es \<noteq> []"
proof -
  have el: "\<forall>x\<in>set es. x \<noteq> [] \<and> slash \<notin> set x"
    using clean_kept_elements[OF assms] by simp
  show "IsAbs (render_path rooted es) = rooted"
  proof (cases "es = []")
    case True
    then show ?thesis by (simp add: render_path_def IsAbs_def slash_def)
  next
    case False
    from join_with_Cons_not_abs[OF False el] show ?thesis
      by (auto simp: render_path_def IsAbs_def)
  qed
  show "render_path rooted es \<noteq> []"
    by (simp add: render_path_def Let_def)
qed

lemma clean_elems_render_path:
  assumes "clean_kept rooted (rev es)"
  shows "clean_elems (render_path rooted es) = es"
proof -
  have el: "\<forall>x\<in>set es. x \<noteq> [] \<and> slash \<notin> set x"
    using clean_kept_elements[OF assms] by simp
  have abs: "IsAbs (render_path rooted es) = rooted" by (rule IsAbs_render_path[OF assms])
  have again: "foldl (clean_step rooted) [] es = rev es"
    using foldl_clean_step_again[OF assms] by simp
  show ?thesis
  proof (cases "es = []")
    case True
    then show ?thesis
      by (simp add: clean_elems_def render_path_def IsAbs_def clean_step_def slash_def)
  next
    case False
    from join_with_Cons_not_abs[OF False el]
    have j: "join_with slash es \<noteq> []" by simp
    have sp: "split_on slash (join_with slash es) = es"
      using split_on_join[OF False] el by simp
    show ?thesis
    proof (cases rooted)
      case True
      then have r: "render_path rooted es = slash # join_with slash es"
        by (simp add: render_path_def)
      have "split_on slash (slash # join_with slash es) = [] # es" using sp by simp
      then show ?thesis
        unfolding clean_elems_def abs unfolding r
        using again by (simp add: clean_step_def)
    next
      case False
      then have r: "render_path rooted es = join_with slash es"
        using j by (simp add: render_path_def)
      show ?thesis
        unfolding clean_elems_def abs unfolding r
        using again sp by simp
    qed
  qed
qed

lemma clean_kept_of_path: "clean_kept (IsAbs p) (rev (clean_elems p))"
  unfolding clean_elems_def
  using foldl_clean_step_kept[of "IsAbs p" "[]" "split_on slash p"] split_on_no_sep[of _ slash p]
  by auto

lemma named_parts_real:
  assumes "''..'' \<notin> set (split_on slash d)"
  shows "list_all real_element (filter named (split_on slash d))"
  using assms split_on_no_sep[of _ slash d]
  by (auto simp: list_all_iff real_element_def named_def)

lemma clean_elems_relative:
  assumes "''..'' \<notin> set (split_on slash d)"
  shows "clean_elems d = filter named (split_on slash d)"
  using foldl_clean_step_no_dotdot[OF assms, of "IsAbs d" "[]"]
  by (simp add: clean_elems_def)

lemma Clean_relative:
  assumes nodots: "''..'' \<notin> set (split_on slash d)" and rel: "\<not> IsAbs d"
  shows "Clean d = render_path False (filter named (split_on slash d))"
proof (cases "d = []")
  case True
  then show ?thesis by (simp add: Clean_def render_path_def named_def)
next
  case False
  with rel show ?thesis by (simp add: Clean_def clean_elems_relative[OF nodots])
qed

lemma foldl_over_rendered:
  assumes real: "list_all real_element ds"
  shows "foldl (clean_step rooted) kept (split_on slash (render_path False ds)) = rev ds @ kept"
proof (cases "ds = []")
  case True
  then show ?thesis by (simp add: render_path_def clean_step_def)
next
  case False
  have el: "\<forall>x\<in>set ds. x \<noteq> [] \<and> slash \<notin> set x"
    using real by (auto simp: list_all_iff real_element_def)
  from join_with_Cons_not_abs[OF False el] have j: "join_with slash ds \<noteq> []" by simp
  have sp: "split_on slash (join_with slash ds) = ds" using split_on_join[OF False] el by simp
  have nd: "''..'' \<notin> set ds" using real by (auto simp: list_all_iff real_element_def)
  have all: "filter named ds = ds"
    using real by (auto simp: list_all_iff real_element_def named_def filter_id_conv)
  show ?thesis
    using foldl_clean_step_no_dotdot[OF nd, of rooted kept] j sp all
    by (simp add: render_path_def)
qed

lemma Join_relative:
  assumes real: "list_all real_element ds"
  shows "Join root (render_path False ds) = render_path (IsAbs root) (clean_elems root @ ds)"
proof (cases "root = []")
  case True
  have k: "clean_kept False (rev ds)"
    using clean_kept_real_append[OF real, of False "[]"] by simp
  have ne: "render_path False ds \<noteq> []" by (rule IsAbs_render_path(2)[OF k])
  have "Clean (render_path False ds) = render_path False ds"
    using ne IsAbs_render_path(1)[OF k] clean_elems_render_path[OF k] by (simp add: Clean_def)
  with True ne show ?thesis
    by (simp add: Join_def IsAbs_def clean_elems_def clean_step_def)
next
  case False
  let ?s = "root @ slash # render_path False ds"
  have abs: "IsAbs ?s = IsAbs root" using False by (cases root) (auto simp: IsAbs_def)
  have "clean_elems ?s = rev (foldl (clean_step (IsAbs root))
           (foldl (clean_step (IsAbs root)) [] (split_on slash root))
           (split_on slash (render_path False ds)))"
    by (simp add: clean_elems_def abs split_on_append)
  also have "\<dots> = clean_elems root @ ds"
    by (simp add: foldl_over_rendered[OF real] clean_elems_def)
  finally have "clean_elems ?s = clean_elems root @ ds" .
  with False abs show ?thesis by (simp add: Join_def Clean_def)
qed

lemma under_root_rendered:
  assumes real: "list_all real_element ds"
  shows "under_root root (render_path (IsAbs root) (clean_elems root @ ds))"
proof -
  have "clean_kept (IsAbs root) (rev ds @ rev (clean_elems root))"
    using clean_kept_real_append[OF real clean_kept_of_path[of root]] .
  then have k: "clean_kept (IsAbs root) (rev (clean_elems root @ ds))" by simp
  from IsAbs_render_path(1)[OF k] clean_elems_render_path[OF k]
  show ?thesis by (simp add: under_root_def)
qed

lemma split_on_chars: "part \<in> set (split_on sep s) \<Longrightarrow> set part \<subseteq> set s"
proof (induction s arbitrary: part)
  case Nil
  then show ?case by simp
next
  case (Cons c cs)
  show ?case
  proof (cases "c = sep")
    case True
    with Cons show ?thesis by auto
  next
    case False
    obtain p ps where ps: "split_on sep cs = p # ps"
      using split_on_not_Nil[of sep cs] by (cases "split_on sep cs") auto
    with Cons.prems False have "part = c # p \<or> part \<in> set ps" by auto
    with Cons.IH[of p] Cons.IH[of part] ps show ?thesis by auto
  qed
qed

lemma clean_step_subset: "set (clean_step rooted kept c) \<subseteq> set kept \<union> {c}"
  by (auto simp: clean_step_def split: list.splits if_splits)

lemma foldl_clean_step_subset:
  "set (foldl (clean_step rooted) kept comps) \<subseteq> set kept \<union> set comps"
proof (induction comps arbitrary: kept)
  case Nil
  then show ?case by simp
next
  case (Cons c comps)
  from Cons.IH[of "clean_step rooted kept c"] clean_step_subset[of rooted kept c]
  show ?case by auto
qed

lemma clean_elems_chars: "x \<in> set (clean_elems p) \<Longrightarrow> set x \<subseteq> set p"
proof -
  assume "x \<in> set (clean_elems p)"
  then have "x \<in> set (split_on slash p)"
    using foldl_clean_step_subset[of "IsAbs p" "[]" "split_on slash p"]
    by (auto simp: clean_elems_def)
  then show ?thesis by (rule split_on_chars)
qed

lemma join_with_chars: "set (join_with sep xs) \<subseteq> {sep} \<union> \<Union>(set ` set xs)"
  by (induction sep xs rule: join_with.induct) auto

lemma render_path_chars:
  "set (render_path rooted es) \<subseteq> {slash, CHR ''.''} \<union> \<Union>(set ` set es)"
  using join_with_chars[of slash es]
  by (auto simp: render_path_def Let_def)

lemma no_backslash_rendered:
  assumes root: "backslash \<notin> set root"
  shows "backslash \<notin> set (render_path (IsAbs root)
           (clean_elems root @ filter named (split_on slash (ReplaceAll_backslash dest))))"
proof
  let ?d = "ReplaceAll_backslash dest"
  assume "backslash \<in> set (render_path (IsAbs root)
           (clean_elems root @ filter named (split_on slash ?d)))"
  with render_path_chars[of "IsAbs root" "clean_elems root @ filter named (split_on slash ?d)"]
  have "backslash \<in> {slash, CHR ''.''}
      \<or> (\<exists>x \<in> set (clean_elems root). backslash \<in> set x)
      \<or> (\<exists>x \<in> set (split_on slash ?d). backslash \<in> set x)" by auto
  moreover have "backslash \<notin> {slash, CHR ''.''}" by (simp add: backslash_def slash_def)
  moreover have "\<not> (\<exists>x \<in> set (clean_elems root). backslash \<in> set x)"
    using clean_elems_chars[of _ root] root by blast
  moreover have "backslash \<notin> set ?d"
    by (auto simp: ReplaceAll_backslash_def backslash_def slash_def)
  then have "\<not> (\<exists>x \<in> set (split_on slash ?d). backslash \<in> set x)"
    using split_on_chars[of _ slash ?d] by blast
  ultimately show False by blast
qed


text \<open>
  C7. For every root directory and every archive entry path, the path cleaner returns an
  error whenever the destination contains a colon, contains a dot-dot segment once its
  backslashes are turned into slashes, or is then an absolute path. For every other
  destination it returns the cleaned join of the root and the destination with its
  separators normalised: the cleaned root's elements followed by the destination's named
  segments. That path lies under the root, and holds no backslash unless the root does.
\<close>

theorem CleanFilePathJoin_safe:
  "(colon \<in> set dest \<or> ''..'' \<in> set (split_on slash (ReplaceAll_backslash dest))
      \<or> IsAbs (ReplaceAll_backslash dest) \<longrightarrow>
      (\<exists>err. CleanFilePathJoin root dest = Inl err))
   \<and> (colon \<notin> set dest \<and> ''..'' \<notin> set (split_on slash (ReplaceAll_backslash dest))
      \<and> \<not> IsAbs (ReplaceAll_backslash dest) \<longrightarrow>
        CleanFilePathJoin root dest = Inr (Join root (Clean (ReplaceAll_backslash dest)))
      \<and> Join root (Clean (ReplaceAll_backslash dest)) =
          render_path (IsAbs root)
            (clean_elems root @ filter named (split_on slash (ReplaceAll_backslash dest)))
      \<and> under_root root (Join root (Clean (ReplaceAll_backslash dest)))
      \<and> (backslash \<notin> set root \<longrightarrow>
           backslash \<notin> set (Join root (Clean (ReplaceAll_backslash dest)))))"
proof -
  let ?d = "ReplaceAll_backslash dest"
  let ?ds = "filter named (split_on slash ?d)"
  have bad: "\<exists>err. CleanFilePathJoin root dest = Inl err"
    if "colon \<in> set dest \<or> ''..'' \<in> set (split_on slash ?d) \<or> IsAbs ?d"
    using that by (auto simp: CleanFilePathJoin_def Let_def)
  have good: "CleanFilePathJoin root dest = Inr (Join root (Clean ?d))
      \<and> Join root (Clean ?d) = render_path (IsAbs root) (clean_elems root @ ?ds)
      \<and> under_root root (Join root (Clean ?d))
      \<and> (backslash \<notin> set root \<longrightarrow> backslash \<notin> set (Join root (Clean ?d)))"
    if ok: "colon \<notin> set dest \<and> ''..'' \<notin> set (split_on slash ?d) \<and> \<not> IsAbs ?d"
  proof -
    from ok have nodots: "''..'' \<notin> set (split_on slash ?d)" and rel: "\<not> IsAbs ?d" by auto
    have real: "list_all real_element ?ds" by (rule named_parts_real[OF nodots])
    have c: "Clean ?d = render_path False ?ds" by (rule Clean_relative[OF nodots rel])
    have j: "Join root (Clean ?d) = render_path (IsAbs root) (clean_elems root @ ?ds)"
      unfolding c by (rule Join_relative[OF real])
    have r: "CleanFilePathJoin root dest = Inr (Join root (Clean ?d))"
      using ok by (simp add: CleanFilePathJoin_def Let_def ToSlash_def)
    have u: "under_root root (Join root (Clean ?d))"
      unfolding j by (rule under_root_rendered[OF real])
    have b: "backslash \<notin> set root \<longrightarrow> backslash \<notin> set (Join root (Clean ?d))"
      unfolding j using no_backslash_rendered by blast
    from r j u b show ?thesis by blast
  qed
  from bad good show ?thesis by blast
qed

theorem CleanFilePathJoin_safe_witness:
  "CleanFilePathJoin ''/cache/abc'' (''chart'' @ backslash # ''templates/./x.yaml'')
     = Inr ''/cache/abc/chart/templates/x.yaml''
   \<and> under_root ''/cache/abc'' ''/cache/abc/chart/templates/x.yaml''
   \<and> isl (CleanFilePathJoin ''/cache/abc'' ''chart/../../etc/passwd'')"
proof -
  let ?dest = "''chart'' @ backslash # ''templates/./x.yaml''"
  have ok: "colon \<notin> set ?dest \<and> ''..'' \<notin> set (split_on slash (ReplaceAll_backslash ?dest))
      \<and> \<not> IsAbs (ReplaceAll_backslash ?dest)"
    by code_simp
  have val: "Join ''/cache/abc'' (Clean (ReplaceAll_backslash ?dest))
      = ''/cache/abc/chart/templates/x.yaml''"
    by code_simp
  have dots: "''..'' \<in> set (split_on slash (ReplaceAll_backslash ''chart/../../etc/passwd''))"
    by code_simp
  from CleanFilePathJoin_safe[of ?dest "''/cache/abc''"] ok
  have "CleanFilePathJoin ''/cache/abc'' ?dest
          = Inr (Join ''/cache/abc'' (Clean (ReplaceAll_backslash ?dest)))
    \<and> under_root ''/cache/abc'' (Join ''/cache/abc'' (Clean (ReplaceAll_backslash ?dest)))"
    by blast
  then have "CleanFilePathJoin ''/cache/abc'' ?dest = Inr ''/cache/abc/chart/templates/x.yaml''
    \<and> under_root ''/cache/abc'' ''/cache/abc/chart/templates/x.yaml''"
    unfolding val .
  moreover from CleanFilePathJoin_safe[of "''chart/../../etc/passwd''" "''/cache/abc''"] dots
  obtain err where "CleanFilePathJoin ''/cache/abc'' ''chart/../../etc/passwd'' = Inl err"
    by blast
  then have "isl (CleanFilePathJoin ''/cache/abc'' ''chart/../../etc/passwd'')"
    by (simp only: sum.disc)
  ultimately show ?thesis by blast
qed

subsection \<open>The worker pool\<close>

text \<open>
  C9. For every worker pool and every integer newSize, SetWorkerPoolSize with a positive
  newSize sets the pool size to the initial size the pool was constructed with, and with a
  non-positive newSize it sets the pool size to newSize itself; GetWorkerPoolSize then
  returns that value. The initial size is never changed by the call.
\<close>

theorem SetWorkerPoolSize_result:
  "GetWorkerPoolSize (SetWorkerPoolSize mw newSize) =
     (if 0 < newSize then initialSize mw else newSize)
   \<and> initialSize (SetWorkerPoolSize mw newSize) = initialSize mw
   \<and> GetWorkerPoolSize (SetWorkerPoolSize (NewManifestWorkers n) newSize) =
     (if 0 < newSize then n else newSize)"
  by (simp add: GetWorkerPoolSize_def SetWorkerPoolSize_def NewManifestWorkers_def)

end
